theory Spec2Isabelle
  imports Complex_Main
begin

section \<open>Data model\<close>

text \<open>
  The repository keeps four MongoDB collections: \<open>agents\<close>, \<open>agent_versions\<close>,
  \<open>agent_runs\<close> and \<open>agent_version_metrics\<close>.  The Go structs of \<open>models/agent.go\<close> and
  \<open>models/metrics.go\<close> become records with the same field names.

  \<^item> A \<open>primitive.ObjectID\<close> is an opaque identity; it is a natural number here.
  \<^item> A \<open>time.Time\<close> is the number of milliseconds since the epoch, the precision of a BSON
    datetime; every offset the code adds (hours, days) is a whole number of milliseconds.
  \<^item> A \<open>float64\<close> is a real number: rounding is not modelled.  The one unguarded float
    division of the code (the success rate) returns the type \<open>float64\<close> below, which has
    the values NaN and the infinities that Go produces on a zero divisor.
  \<^item> Go's \<open>int\<close> and \<open>int64\<close> are unbounded integers: every integer of the code is a
    number of documents.
\<close>

type_synonym ObjectID = nat
type_synonym Time = int

datatype float64 = Fin real | PosInf | NegInf | NaN

text \<open>
  The field \<open>time_taken\<close> of a stored run is not of one type: the struct declares a string,
  the seeding program writes a double for some runs and a string such as \<open>3.21s\<close> for
  others.  A stored run therefore holds a BSON value there; \<open>BNull\<close> stands for a null or
  missing field.
\<close>

datatype bson_value = BString string | BDouble real | BNull

record Agent =
  ID :: ObjectID
  Name :: string
  Project :: string
  CreatedAt :: Time
  UpdatedAt :: Time

text \<open>
  The worker reads \<open>agentVersion.Status\<close>, and the seeding program stores a \<open>status\<close> with
  every version; the field is part of the record.
\<close>

record AgentVersion =
  ID :: ObjectID
  AgentID :: ObjectID
  Version :: string
  Cluster :: string
  Status :: string
  Tools :: "string list"
  Models :: "string list"
  Deployment :: string
  CreatedAt :: Time
  UpdatedAt :: Time

text \<open>
  \<open>'t AgentRun\<close> is a run whose \<open>time_taken\<close> has type \<open>'t\<close>: a document of the collection
  is a \<open>bson_value AgentRun\<close>, the Go struct \<open>models.AgentRun\<close> is a \<open>string AgentRun\<close>.
\<close>

record 't AgentRun =
  ID :: ObjectID
  AgentID :: ObjectID
  VersionID :: ObjectID
  Version :: string
  Created :: Time
  Status :: string
  TimeTaken :: 't
  Initiator :: string
  Tools :: "string list"
  Cost :: real
  Models :: "string list"
  RunID :: int
  TaskID :: int
  RecordedAt :: Time

record AgentVersionMetrics =
  Id :: ObjectID
  Name :: string
  Project :: string
  Status :: string
  LastSeen :: Time
  Version :: string
  AverageRunTime :: float64
  SuccessRate :: float64
  TotalRuns :: int
  Spend :: float64
  Tools :: "string list"
  Models :: "string list"
  Cluster :: string

record store =
  agents :: "Agent list"
  agent_versions :: "AgentVersion list"
  agent_runs :: "bson_value AgentRun list"
  agent_version_metrics :: "ObjectID \<rightharpoonup> AgentVersionMetrics"

section \<open>The aggregation worker\<close>

text \<open>
  Every call of the store can fail for a reason outside the data (network, timeout).  Such
  failures are an input of the model: the set of the steps that fail for one unit of work.
\<close>

datatype step = StepCount | StepFindOne | StepDecode | StepCountErrors | StepAggregate
  | StepCursorAll | StepUpsert

datatype outcome = Upserted | Skipped step | Panicked

record Work =
  agent :: "Agent option"
  agentVersion :: AgentVersion

text \<open>Go's float division: a zero divisor gives NaN or an infinity, never a panic.\<close>

definition f64_div :: "real \<Rightarrow> real \<Rightarrow> float64" where
  "f64_div x y =
     (if y \<noteq> 0 then Fin (x / y)
      else if x = 0 then NaN
      else if 0 < x then PosInf else NegInf)"

text \<open>Multiplication by a positive finite constant.\<close>

fun f64_scale :: "float64 \<Rightarrow> real \<Rightarrow> float64" where
  "f64_scale (Fin r) c = Fin (r * c)"
| "f64_scale PosInf c = PosInf"
| "f64_scale NegInf c = NegInf"
| "f64_scale NaN c = NaN"

text \<open>
  \<open>FindOne\<close> with \<open>Sort: recorded_at desc\<close>: the document with the greatest \<open>recorded_at\<close>,
  the first of them in collection order when several share it (MongoDB does not fix the
  order of ties; they all have the same \<open>recorded_at\<close>).  No document: \<open>ErrNoDocuments\<close>.
\<close>

fun FindOne_latest :: "'t AgentRun list \<Rightarrow> 't AgentRun option" where
  "FindOne_latest [] = None"
| "FindOne_latest (r # rs) =
     (case FindOne_latest rs of
        None \<Rightarrow> Some r
      | Some m \<Rightarrow> if RecordedAt r < RecordedAt m then Some m else Some r)"

text \<open>
  \<open>res.Decode(&lastRecord)\<close>: the driver decodes a BSON string into the string field
  \<open>TimeTaken\<close>, leaves the zero value for a null or missing field, and refuses a double.
\<close>

definition decoded :: "bson_value AgentRun \<Rightarrow> string \<Rightarrow> string AgentRun" where
  "decoded d x =
     \<lparr> AgentRun.ID = AgentRun.ID d, AgentID = AgentRun.AgentID d, VersionID = VersionID d,
       Version = AgentRun.Version d, Created = Created d, Status = AgentRun.Status d,
       TimeTaken = x, Initiator = Initiator d, Tools = AgentRun.Tools d, Cost = Cost d,
       Models = AgentRun.Models d, RunID = RunID d, TaskID = TaskID d,
       RecordedAt = RecordedAt d \<rparr>"

definition Decode :: "bson_value AgentRun \<Rightarrow> string AgentRun option" where
  "Decode d =
     (case TimeTaken d of
        BString x \<Rightarrow> Some (decoded d x)
      | BNull \<Rightarrow> Some (decoded d [])
      | BDouble x \<Rightarrow> None)"

text \<open>
  The accumulators of the \<open>$group\<close> stage.  \<open>$avg\<close> ignores the values that are not
  numbers and is null when there is none; \<open>$sum\<close> of doubles is a double.
\<close>

definition numeric_values :: "bson_value list \<Rightarrow> real list" where
  "numeric_values vs = concat (map (\<lambda>v. case v of BDouble d \<Rightarrow> [d] | _ \<Rightarrow> []) vs)"

definition avg_acc :: "bson_value list \<Rightarrow> real option" where
  "avg_acc vs =
     (let ds = numeric_values vs
      in if ds = [] then None else Some (sum_list ds / real (length ds)))"

text \<open>The runs that the filter \<open>version_id = vid\<close> matches, in collection order.\<close>

definition version_runs :: "store \<Rightarrow> ObjectID \<Rightarrow> bson_value AgentRun list" where
  "version_runs s vid = filter (\<lambda>r. VersionID r = vid) (agent_runs s)"

text \<open>
  One iteration of the loop of \<open>worker\<close>, for one \<open>Work\<close> received from the channel.  \<open>F\<close> is
  the set of the steps that fail for this unit.  The result is what happened and the store
  afterwards.  The branch on \<open>ctx.Done()\<close> is never taken: the context is
  \<open>context.Background()\<close>.
\<close>

definition worker :: "store \<Rightarrow> Work \<Rightarrow> step set \<Rightarrow> outcome \<times> store" where
  "worker s work F =
     (let agentVersion = Work.agentVersion work;
          vruns = version_runs s (AgentVersion.ID agentVersion);
          count = int (length vruns)
      in
      if StepCount \<in> F then (Skipped StepCount, s)
      else if StepFindOne \<in> F then (Skipped StepFindOne, s)
      else (case FindOne_latest vruns of
        None \<Rightarrow> (Skipped StepFindOne, s)
      | Some doc \<Rightarrow>
      if StepDecode \<in> F then (Skipped StepDecode, s)
      else (case Decode doc of
        None \<Rightarrow> (Skipped StepDecode, s)
      | Some lastRecord \<Rightarrow>
      if StepCountErrors \<in> F then (Skipped StepCountErrors, s)
      else
      (let countErrors = int (length (filter (\<lambda>r. AgentRun.Status r = ''error'') vruns))
      in
      if StepAggregate \<in> F then (Skipped StepAggregate, s)
      else if StepCursorAll \<in> F then (Skipped StepCursorAll, s)
      else
      (let avgTimeTaken =
            (if vruns = [] then 0
             else (case avg_acc (map TimeTaken vruns) of None \<Rightarrow> 0 | Some a \<Rightarrow> a));
          totalCost = (if vruns = [] then 0 else sum_list (map Cost vruns))
      in
      (case Work.agent work of
        None \<Rightarrow> (Panicked, s)
      | Some a \<Rightarrow>
      (let avm = \<lparr> Id = AgentVersion.ID agentVersion,
                  Name = Agent.Name a,
                  Project = Agent.Project a,
                  Status = AgentVersion.Status agentVersion,
                  LastSeen = RecordedAt lastRecord,
                  Version = AgentVersion.Version agentVersion,
                  AverageRunTime = Fin avgTimeTaken,
                  SuccessRate = f64_scale (f64_div (real_of_int (count - countErrors))
                                                   (real_of_int count)) 100,
                  TotalRuns = count,
                  Spend = Fin totalCost,
                  Tools = AgentVersion.Tools agentVersion,
                  Models = AgentVersion.Models agentVersion,
                  Cluster = AgentVersion.Cluster agentVersion \<rparr>
      in
      if StepUpsert \<in> F then (Skipped StepUpsert, s)
      else (Upserted,
            s\<lparr>agent_version_metrics :=
                 (agent_version_metrics s)(AgentVersion.ID agentVersion \<mapsto> avm)\<rparr>))))))))"

section \<open>The aggregation pass\<close>

text \<open>
  \<open>main\<close> of the aggregator reads all agents and all versions, builds the lookup from an
  agent's identity to the agent, starts ten worker goroutines, sends one \<open>Work\<close> per
  version to them, and waits for all units.

  A unit reads the runs only, which no unit writes, and writes only the metrics document
  whose key is the identity of its version; the identities of the versions of a collection
  are distinct.  When no unit panics, the documents that a pass leaves therefore do not
  depend on the order in which the workers take the units (lemmas \<open>dispatch_crashes_iff\<close>
  and \<open>dispatch_order\<close> below), and the pass is modelled as the units run in the order of
  dispatch.  When a unit panics, the process dies at once, while the other workers may be
  in the middle of their units: the documents written by then depend on the schedule, and
  the model says of such a pass only that it crashed, and nothing of the store it leaves.

  \<open>G\<close> is the set of the four initial reads that fail (the program then exits before any
  worker is started); \<open>F\<close> gives, for each version, the steps that fail in its unit.
\<close>

datatype main_step = FetchAgents | DecodeAgents | FetchVersions | DecodeVersions

datatype pass_result = Completed "outcome list" store | ExitFailure | Crashed

definition agentToAgentIDLookup :: "Agent list \<Rightarrow> (ObjectID \<rightharpoonup> Agent)" where
  "agentToAgentIDLookup as = foldl (\<lambda>m a. m(Agent.ID a \<mapsto> a)) Map.empty as"

text \<open>
  The units of the versions, in the order of dispatch: the outcomes and the store when no
  unit panics, \<open>None\<close> when one does.
\<close>

fun dispatch ::
  "(ObjectID \<rightharpoonup> Agent) \<Rightarrow> (ObjectID \<Rightarrow> step set) \<Rightarrow> store \<Rightarrow> AgentVersion list
     \<Rightarrow> (outcome list \<times> store) option" where
  "dispatch lk F s [] = Some ([], s)"
| "dispatch lk F s (av # avs) =
     (let w = \<lparr> agent = lk (AgentVersion.AgentID av), agentVersion = av \<rparr>;
          r = worker s w (F (AgentVersion.ID av))
      in if fst r = Panicked then None
         else (case dispatch lk F (snd r) avs of
                 None \<Rightarrow> None
               | Some rest \<Rightarrow> Some (fst r # fst rest, snd rest)))"

definition main :: "main_step set \<Rightarrow> (ObjectID \<Rightarrow> step set) \<Rightarrow> store \<Rightarrow> pass_result" where
  "main G F s =
     (if FetchAgents \<in> G then ExitFailure
      else if DecodeAgents \<in> G then ExitFailure
      else if FetchVersions \<in> G then ExitFailure
      else if DecodeVersions \<in> G then ExitFailure
      else (case dispatch (agentToAgentIDLookup (agents s)) F s (agent_versions s) of
              None \<Rightarrow> Crashed
            | Some r \<Rightarrow> Completed (fst r) (snd r)))"

section \<open>Formatting\<close>

text \<open>\<open>fmt.Sprintf\<close> with the verbs \<open>%d\<close> and \<open>%03d\<close>.\<close>

definition digit_char :: "nat \<Rightarrow> char" where
  "digit_char d = ''0123456789'' ! d"

fun digits :: "nat \<Rightarrow> string" where
  "digits n = (if n < 10 then [digit_char n] else digits (n div 10) @ [digit_char (n mod 10)])"

declare digits.simps [simp del]

definition fmt_d :: "int \<Rightarrow> string" where
  "fmt_d n = (if n < 0 then CHR ''-'' # digits (nat (- n)) else digits (nat n))"

definition zero_pad :: "nat \<Rightarrow> string \<Rightarrow> string" where
  "zero_pad w ds = replicate (w - length ds) CHR ''0'' @ ds"

definition fmt_03d :: "int \<Rightarrow> string" where
  "fmt_03d n =
     (if n < 0 then CHR ''-'' # zero_pad 2 (digits (nat (- n))) else zero_pad 3 (digits (nat n)))"

text \<open>\<open>abs\<close> of the repository, on integers.\<close>

definition abs_int :: "int \<Rightarrow> int" where
  "abs_int n = (if n < 0 then - n else n)"

text \<open>
  \<open>formatNumber\<close>.  Go's \<open>/\<close> and \<open>%\<close> truncate towards zero; they are applied to
  \<open>n \<ge> 1000\<close> only, where they are \<open>div\<close> and \<open>mod\<close>.
\<close>

definition formatNumber :: "int \<Rightarrow> string" where
  "formatNumber n =
     (if n < 1000 then fmt_d n
      else fmt_d (n div 1000) @ '','' @ fmt_03d (n mod 1000))"

text \<open>
  The specification's rendering, for comparison: the decimal digits of \<open>n\<close> with a comma
  between every two groups of three digits, counted from the right.
\<close>

fun thousands_grouped :: "nat \<Rightarrow> string" where
  "thousands_grouped n =
     (if n < 1000 then digits n
      else thousands_grouped (n div 1000) @ '','' @ zero_pad 3 (digits (n mod 1000)))"

declare thousands_grouped.simps [simp del]

text \<open>Go's conversion \<open>int(x)\<close> of a float: the fraction is dropped.\<close>

definition trunc_int :: "real \<Rightarrow> int" where
  "trunc_int x = (if 0 \<le> x then \<lfloor>x\<rfloor> else \<lceil>x\<rceil>)"

section \<open>The dashboard queries\<close>

text \<open>
  A query of the dashboard returns a value or an error; a failed type assertion on a
  result panics.  \<open>down\<close> says that the store fails the call for a reason outside the data.
\<close>

datatype error = StoreError | Wrapped string error | Panic

definition wrap :: "string \<Rightarrow> error \<Rightarrow> error" where
  "wrap msg e = (case e of Panic \<Rightarrow> Panic | _ \<Rightarrow> Wrapped msg e)"

text \<open>The type assertion \<open>.(int32)\<close> on a count: a count that needs 64 bits is an int64.\<close>

definition is_int32 :: "nat \<Rightarrow> bool" where
  "is_int32 n = (n \<le> 2147483647)"

text \<open>
  \<open>getActiveAgentsCount\<close>: \<open>$match\<close> on \<open>created \<ge> since\<close>, \<open>$group\<close> by \<open>agent_id\<close>,
  \<open>$count\<close>.  \<open>$count\<close> gives no document when there is no group.
\<close>

definition getActiveAgentsCount :: "store \<Rightarrow> bool \<Rightarrow> Time \<Rightarrow> error + int" where
  "getActiveAgentsCount s down since =
     (if down then Inl StoreError
      else
      let matched = filter (\<lambda>r. since \<le> Created r) (agent_runs s);
          groups = remdups (map AgentRun.AgentID matched)
      in if groups = [] then Inr 0
         else if is_int32 (length groups) then Inr (int (length groups))
         else Inl Panic)"

definition getRunsCount :: "store \<Rightarrow> bool \<Rightarrow> Time \<Rightarrow> Time \<Rightarrow> error + int" where
  "getRunsCount s down start end =
     (if down then Inl StoreError
      else Inr (int (length (filter (\<lambda>r. start \<le> Created r \<and> Created r < end) (agent_runs s)))))"

text \<open>
  The conversion of a string to a double is done by the server (the \<open>$toDouble\<close> of
  MongoDB), not by code of this repository: it is a parameter \<open>toD\<close> of the model, where
  \<open>toD x\<close> is the number that the server reads from the string \<open>x\<close>, and \<open>None\<close> when the
  server refuses \<open>x\<close>.  Every fact below holds for every such conversion.
\<close>

type_synonym conversion = "string \<Rightarrow> real option"

text \<open>
  The expression of the \<open>$addFields\<close> stage,
  \<open>$toDouble ($replaceAll (input: $time_taken, find: "s", replacement: ""))\<close>.
  \<open>$replaceAll\<close> removes every \<open>s\<close> of a string, is null on a null or missing input and
  fails on any other input; \<open>$toDouble\<close> is null on null and fails on a string that the
  server does not convert.  A failure of the expression on one document fails the aggregation.
\<close>

definition remove_s :: "string \<Rightarrow> string" where
  "remove_s x = filter (\<lambda>c. c \<noteq> CHR ''s'') x"

definition replaceAll_s :: "bson_value \<Rightarrow> error + bson_value" where
  "replaceAll_s v =
     (case v of
        BString x \<Rightarrow> Inr (BString (remove_s x))
      | BNull \<Rightarrow> Inr BNull
      | BDouble d \<Rightarrow> Inl StoreError)"

definition toDouble :: "conversion \<Rightarrow> bson_value \<Rightarrow> error + bson_value" where
  "toDouble toD v =
     (case v of
        BString x \<Rightarrow> (case toD x of None \<Rightarrow> Inl StoreError | Some d \<Rightarrow> Inr (BDouble d))
      | BDouble d \<Rightarrow> Inr (BDouble d)
      | BNull \<Rightarrow> Inr BNull)"

fun time_taken_seconds :: "conversion \<Rightarrow> bson_value list \<Rightarrow> error + bson_value list" where
  "time_taken_seconds toD [] = Inr []"
| "time_taken_seconds toD (v # vs) =
     (case replaceAll_s v of
        Inl e \<Rightarrow> Inl e
      | Inr w \<Rightarrow>
        (case toDouble toD w of
           Inl e \<Rightarrow> Inl e
         | Inr d \<Rightarrow>
           (case time_taken_seconds toD vs of
              Inl e \<Rightarrow> Inl e
            | Inr ds \<Rightarrow> Inr (d # ds))))"

text \<open>
  \<open>getAvgResponseTime\<close>.  \<open>$group\<close> with \<open>_id: nil\<close> gives no document when nothing matched,
  and else one document with the average and the number of the matched documents.  The
  type assertion \<open>.(float64)\<close> panics on a null average.
\<close>

definition getAvgResponseTime ::
  "conversion \<Rightarrow> store \<Rightarrow> bool \<Rightarrow> Time \<Rightarrow> Time \<Rightarrow> error + real" where
  "getAvgResponseTime toD s down start end =
     (if down then Inl StoreError
      else
      let matched = filter (\<lambda>r. start \<le> Created r \<and> Created r < end) (agent_runs s)
      in case time_taken_seconds toD (map TimeTaken matched) of
           Inl e \<Rightarrow> Inl e
         | Inr secs \<Rightarrow>
           if matched = [] then Inr 0
           else if \<not> is_int32 (length matched) then Inl Panic
           else if length matched = 0 then Inr 0
           else (case avg_acc secs of None \<Rightarrow> Inl Panic | Some a \<Rightarrow> Inr a))"

definition getTotalCost :: "store \<Rightarrow> bool \<Rightarrow> Time \<Rightarrow> Time \<Rightarrow> error + real" where
  "getTotalCost s down start end =
     (if down then Inl StoreError
      else
      let matched = filter (\<lambda>r. start \<le> Created r \<and> Created r < end) (agent_runs s)
      in if matched = [] then Inr 0 else Inr (sum_list (map Cost matched)))"

text \<open>
  For the statement of what the query computes on strings: the numbers read from the
  strings of a list of \<open>time_taken\<close> values, each after the removal of its \<open>s\<close>.
\<close>

definition parsed_seconds :: "conversion \<Rightarrow> bson_value list \<Rightarrow> real list" where
  "parsed_seconds toD vs =
     concat (map (\<lambda>v. case v of
                         BString x \<Rightarrow> (case toD (remove_s x) of
                                         None \<Rightarrow> [] | Some d \<Rightarrow> [d])
                       | _ \<Rightarrow> []) vs)"

definition window_time_taken :: "store \<Rightarrow> Time \<Rightarrow> Time \<Rightarrow> bson_value list" where
  "window_time_taken s start end =
     map TimeTaken (filter (\<lambda>r. start \<le> Created r \<and> Created r < end) (agent_runs s))"

section \<open>The dashboard statistics\<close>

record StatsData =
  Title :: string
  Value :: string
  Change :: string
  Icon :: string
  Trend :: string
  Raw :: real

datatype query = QActiveNow | QActiveLastWeek | QRunsToday | QRunsYesterday
  | QAvgNow | QAvgPrev | QCostToday | QCostYesterday

text \<open>
  The time windows.  \<open>off\<close> is the offset of the server's time zone from UTC in
  milliseconds, taken as constant over the eight days before \<open>now\<close>; \<open>today\<close> is then the
  last local midnight, and \<open>AddDate(0, 0, -k)\<close> goes back \<open>k\<close> times 24 hours.
\<close>

definition hour_ms :: int where "hour_ms = 3600000"

definition day_ms :: int where "day_ms = 86400000"

definition today :: "int \<Rightarrow> Time \<Rightarrow> Time" where
  "today off now = now - (now + off) mod day_ms"

definition yesterday :: "int \<Rightarrow> Time \<Rightarrow> Time" where
  "yesterday off now = today off now - day_ms"

definition lastWeek :: "int \<Rightarrow> Time \<Rightarrow> Time" where
  "lastWeek off now = today off now - 7 * day_ms"

definition lastHour :: "Time \<Rightarrow> Time" where
  "lastHour now = now - hour_ms"

definition last48Hours :: "Time \<Rightarrow> Time" where
  "last48Hours now = now - 48 * hour_ms"

text \<open>
  \<open>GetDashboardStats\<close>, at the time \<open>now\<close> that \<open>time.Now()\<close> returned.  \<open>Q\<close> is the set of
  the queries that the store fails.  \<open>fmtf p x\<close> stands for \<open>fmt.Sprintf\<close> of the float \<open>x\<close>
  with the verb \<open>%.pf\<close>, which is not modelled; \<open>toD\<close> is the server's conversion of strings.
\<close>

definition GetDashboardStats ::
  "(nat \<Rightarrow> real \<Rightarrow> string) \<Rightarrow> conversion \<Rightarrow> int \<Rightarrow> store \<Rightarrow> query set \<Rightarrow> Time
     \<Rightarrow> error + StatsData list" where
  "GetDashboardStats fmtf toD off s Q now =
     (case getActiveAgentsCount s (QActiveNow \<in> Q) (last48Hours now) of
        Inl e \<Rightarrow> Inl (wrap ''failed to get active agents count'' e)
      | Inr activeAgentsNow \<Rightarrow>
      (case getActiveAgentsCount s (QActiveLastWeek \<in> Q) (lastWeek off now) of
        Inl e \<Rightarrow> Inl (wrap ''failed to get last week's active agents count'' e)
      | Inr activeAgentsLastWeek \<Rightarrow>
      (let activeAgentsDiff = activeAgentsNow - activeAgentsLastWeek;
          activeAgentsTrend =
            (if activeAgentsDiff < 0 then ''down''
             else if activeAgentsDiff = 0 then ''neutral'' else ''up'');
          activeAgentsChangePrefix =
            (if activeAgentsDiff < 0 then []
             else if activeAgentsDiff = 0 then [] else ''+'')
      in
      (case getRunsCount s (QRunsToday \<in> Q) (today off now) now of
        Inl e \<Rightarrow> Inl (wrap ''failed to get today's runs count'' e)
      | Inr runsToday \<Rightarrow>
      (case getRunsCount s (QRunsYesterday \<in> Q) (yesterday off now) (today off now) of
        Inl e \<Rightarrow> Inl (wrap ''failed to get yesterday's runs count'' e)
      | Inr runsYesterday \<Rightarrow>
      (let runsPercentChange =
            (if 0 < runsYesterday
             then (real_of_int (runsToday - runsYesterday) / real_of_int runsYesterday) * 100
             else 0);
          runsTrend =
            (if runsPercentChange < 0 then ''down''
             else if runsPercentChange = 0 then ''neutral'' else ''up'');
          runsChangePrefix =
            (if runsPercentChange < 0 then []
             else if runsPercentChange = 0 then [] else ''+'')
      in
      (case getAvgResponseTime toD s (QAvgNow \<in> Q) (lastHour now) now of
        Inl e \<Rightarrow> Inl (wrap ''failed to get current average response time'' e)
      | Inr avgResponseTimeNow \<Rightarrow>
      (case getAvgResponseTime toD s (QAvgPrev \<in> Q) (lastHour now - hour_ms) (lastHour now) of
        Inl e \<Rightarrow> Inl (wrap ''failed to get previous average response time'' e)
      | Inr avgResponseTimePrev \<Rightarrow>
      (let responseDiff0 = avgResponseTimePrev - avgResponseTimeNow;
          responseTrend =
            (if responseDiff0 < 0 then ''up''
             else if responseDiff0 = 0 then ''neutral'' else ''down'');
          responseChangePrefix =
            (if responseDiff0 < 0 then ''+''
             else if responseDiff0 = 0 then [] else ''-'');
          responseDiff = (if responseDiff0 < 0 then - responseDiff0 else responseDiff0)
      in
      (case getTotalCost s (QCostToday \<in> Q) (today off now) now of
        Inl e \<Rightarrow> Inl (wrap ''failed to get today's total cost'' e)
      | Inr costToday \<Rightarrow>
      (case getTotalCost s (QCostYesterday \<in> Q) (yesterday off now) (today off now) of
        Inl e \<Rightarrow> Inl (wrap ''failed to get yesterday's total cost'' e)
      | Inr costYesterday \<Rightarrow>
      (let costPercentChange =
            (if 0 < costYesterday then ((costToday - costYesterday) / costYesterday) * 100
             else 0);
          costTrend =
            (if costPercentChange < 0 then ''down''
             else if costPercentChange = 0 then ''neutral'' else ''up'');
          costChangePrefix =
            (if costPercentChange < 0 then []
             else if costPercentChange = 0 then [] else ''+'')
      in
      Inr [ \<lparr> Title = ''Active Agents'',
              Value = fmt_d activeAgentsNow,
              Change = activeAgentsChangePrefix @ fmt_d (abs_int activeAgentsDiff)
                       @ '' from last week'',
              Icon = ''Bot'',
              Trend = activeAgentsTrend,
              Raw = real_of_int activeAgentsNow \<rparr>,
            \<lparr> Title = ''Total Runs Today'',
              Value = formatNumber runsToday,
              Change = runsChangePrefix @ fmt_d (abs_int (trunc_int runsPercentChange))
                       @ ''% from yesterday'',
              Icon = ''Activity'',
              Trend = runsTrend,
              Raw = real_of_int runsToday \<rparr>,
            \<lparr> Title = ''Avg Response Time'',
              Value = fmtf 1 avgResponseTimeNow @ ''s'',
              Change = responseChangePrefix @ fmtf 1 responseDiff @ ''s from last hour'',
              Icon = ''Clock'',
              Trend = responseTrend,
              Raw = avgResponseTimeNow \<rparr>,
            \<lparr> Title = ''Total Cost Today'',
              Value = ''$'' @ fmtf 2 costToday,
              Change = costChangePrefix @ fmt_d (abs_int (trunc_int costPercentChange))
                       @ ''% from yesterday'',
              Icon = ''DollarSign'',
              Trend = costTrend,
              Raw = costToday \<rparr> ]))))))))))))"

section \<open>Example data\<close>

text \<open>
  One agent, 7, with three versions: version 10 has two runs, one of them an error; version
  11 has no run; version 13 has one run.  Version 12 belongs to agent 8, which is not in
  the collection of agents, and has one run.
\<close>

definition mk_run ::
  "ObjectID \<Rightarrow> ObjectID \<Rightarrow> ObjectID \<Rightarrow> Time \<Rightarrow> string \<Rightarrow> bson_value \<Rightarrow> real \<Rightarrow> Time
     \<Rightarrow> bson_value AgentRun" where
  "mk_run i a v c st tt co rec =
     \<lparr> AgentRun.ID = i, AgentID = a, VersionID = v, Version = ''1.0.0'', Created = c,
       Status = st, TimeTaken = tt, Initiator = ''user'', Tools = [], Cost = co,
       Models = [], RunID = int i, TaskID = int i, RecordedAt = rec \<rparr>"

definition mk_version :: "ObjectID \<Rightarrow> ObjectID \<Rightarrow> string \<Rightarrow> AgentVersion" where
  "mk_version i a v =
     \<lparr> AgentVersion.ID = i, AgentID = a, Version = v, Cluster = ''production'',
       Status = ''active'', Tools = [''tool1''], Models = [''gpt-4''],
       Deployment = ''kubernetes'', CreatedAt = 0, UpdatedAt = 0 \<rparr>"

definition agent1 :: Agent where
  "agent1 = \<lparr> Agent.ID = 7, Name = ''search-agent'', Project = ''search'',
              CreatedAt = 0, UpdatedAt = 0 \<rparr>"

definition example_runs :: "bson_value AgentRun list" where
  "example_runs =
     [ mk_run 100 7 10 100 ''success'' (BString ''1.5s'') 1 500,
       mk_run 101 7 10 200 ''error'' (BString ''2.5s'') 2 400,
       mk_run 102 7 13 300 ''success'' (BString ''4s'') 3 600 ]"

definition example_store :: store where
  "example_store =
     \<lparr> agents = [agent1],
       agent_versions = [mk_version 10 7 ''1.0.0'', mk_version 11 7 ''1.1.0'',
                         mk_version 13 7 ''1.2.0''],
       agent_runs = example_runs,
       agent_version_metrics = Map.empty \<rparr>"

definition orphan_store :: store where
  "orphan_store =
     \<lparr> agents = [agent1],
       agent_versions = [mk_version 12 8 ''1.0.0'', mk_version 10 7 ''1.0.0''],
       agent_runs = example_runs @ [mk_run 103 8 12 300 ''success'' (BString ''1s'') 1 700],
       agent_version_metrics = Map.empty \<rparr>"

definition work_of :: "store \<Rightarrow> AgentVersion \<Rightarrow> Work" where
  "work_of s av =
     \<lparr> agent = agentToAgentIDLookup (agents s) (AgentVersion.AgentID av), agentVersion = av \<rparr>"

text \<open>
  Two oracles of failures: the upsert of the unit of version 10 fails; the decoding of
  the last run fails in the unit of version 13.
\<close>

definition upsert_fails_for_10 :: "ObjectID \<Rightarrow> step set" where
  "upsert_fails_for_10 v = (if v = 10 then {StepUpsert} else {})"

definition decode_fails_for_13 :: "ObjectID \<Rightarrow> step set" where
  "decode_fails_for_13 v = (if v = 13 then {StepDecode} else {})"

text \<open>The store that a pass leaves, for the statements about examples.\<close>

definition store_after :: "pass_result \<Rightarrow> store option" where
  "store_after r = (case r of Completed outs s \<Rightarrow> Some s | _ \<Rightarrow> None)"

definition outcomes_of :: "pass_result \<Rightarrow> outcome list option" where
  "outcomes_of r = (case r of Completed outs s \<Rightarrow> Some outs | _ \<Rightarrow> None)"

text \<open>
  For the dashboard: the time is noon of the eleventh day after the epoch, in UTC.  One
  run of three seconds in the last hour, one of five seconds in the hour before; no run
  the day before.  \<open>yesterday_store\<close> has one more run, made the day before.
\<close>

definition example_now :: Time where
  "example_now = 907200000"

definition dash_store :: store where
  "dash_store =
     \<lparr> agents = [agent1],
       agent_versions = [mk_version 10 7 ''1.0.0''],
       agent_runs =
         [ mk_run 200 7 10 905000000 ''success'' (BString ''3s'') 2 905000001,
           mk_run 201 7 10 901000000 ''success'' (BString ''5s'') 1 901000001 ],
       agent_version_metrics = Map.empty \<rparr>"

definition yesterday_store :: store where
  "yesterday_store =
     dash_store\<lparr> agent_runs :=
       agent_runs dash_store
       @ [mk_run 202 7 10 800000000 ''success'' (BString ''2s'') 1 800000001] \<rparr>"

text \<open>\<open>slower_store\<close>: five seconds in the last hour, three in the hour before.\<close>

definition slower_store :: store where
  "slower_store =
     dash_store\<lparr> agent_runs :=
       [ mk_run 200 7 10 905000000 ''success'' (BString ''5s'') 2 905000001,
         mk_run 201 7 10 901000000 ''success'' (BString ''3s'') 1 901000001 ] \<rparr>"

definition mixed_store :: store where
  "mixed_store =
     dash_store\<lparr> agent_runs :=
       [ mk_run 300 7 10 905000000 ''success'' (BString ''3.2s'') 2 905000001,
         mk_run 301 7 10 905000500 ''success'' (BDouble (32 / 10)) 1 905000501 ] \<rparr>"

definition unparseable_store :: store where
  "unparseable_store =
     dash_store\<lparr> agent_runs :=
       [ mk_run 300 7 10 905000000 ''success'' (BString ''3.2s'') 2 905000001,
         mk_run 302 7 10 905000500 ''success'' (BString ''1m30s'') 1 905000501 ] \<rparr>"

definition strings_store :: store where
  "strings_store =
     dash_store\<lparr> agent_runs :=
       [ mk_run 300 7 10 905000000 ''success'' (BString ''3.2s'') 2 905000001,
         mk_run 303 7 10 905000500 ''success'' BNull 1 905000501,
         mk_run 304 7 10 905000700 ''success'' (BString ''4.8s'') 1 905000701 ] \<rparr>"

text \<open>
  A conversion for the examples: it reads the plain decimal numerals \<open>[-]digits[.digits]\<close>
  and refuses every other string.  The strings converted in the examples are \<open>3\<close>, \<open>5\<close>,
  \<open>2\<close>, \<open>3.2\<close> and \<open>4.8\<close>, which are such numerals, and \<open>1m30\<close>, which is a number in no
  notation.
\<close>

definition is_digit :: "char \<Rightarrow> bool" where
  "is_digit c = (c \<in> set ''0123456789'')"

definition digit_val :: "char \<Rightarrow> nat" where
  "digit_val c = of_char c - 48"

definition nat_of_digits :: "string \<Rightarrow> nat" where
  "nat_of_digits ds = foldl (\<lambda>a c. 10 * a + digit_val c) 0 ds"

definition decimal_unsigned :: "string \<Rightarrow> real option" where
  "decimal_unsigned x =
     (let ip = takeWhile is_digit x; rest = dropWhile is_digit x
      in if ip = [] then None
         else if rest = [] then Some (real (nat_of_digits ip))
         else if hd rest = CHR ''.'' \<and> tl rest \<noteq> [] \<and> list_all is_digit (tl rest)
         then Some (real (nat_of_digits ip)
                    + real (nat_of_digits (tl rest)) / 10 ^ length (tl rest))
         else None)"

definition decimal_conversion :: conversion where
  "decimal_conversion x =
     (if x \<noteq> [] \<and> hd x = CHR ''-'' then map_option uminus (decimal_unsigned (tl x))
      else decimal_unsigned x)"

text \<open>A stand-in for \<open>%.pf\<close> in the examples: the integer part only.\<close>

definition fmtf_example :: "nat \<Rightarrow> real \<Rightarrow> string" where
  "fmtf_example p x = fmt_d (trunc_int x)"

section \<open>Facts about the worker\<close>

lemmas ex_defs = example_store_def example_runs_def mk_run_def mk_version_def agent1_def
  orphan_store_def work_of_def agentToAgentIDLookup_def version_runs_def

lemmas eval_defs = worker_def ex_defs Decode_def decoded_def avg_acc_def numeric_values_def
  f64_div_def

lemma FindOne_latest_None: "FindOne_latest rs = None \<longleftrightarrow> rs = []"
  by (induction rs) (auto split: option.splits)

lemma FindOne_latest_mem: "FindOne_latest rs = Some m \<Longrightarrow> m \<in> set rs"
  by (induction rs arbitrary: m) (auto split: option.splits if_splits)

lemma FindOne_latest_max:
  "FindOne_latest rs = Some m \<Longrightarrow> r \<in> set rs \<Longrightarrow> RecordedAt r \<le> RecordedAt m"
  by (induction rs arbitrary: m) (fastforce split: option.splits if_splits simp: FindOne_latest_None)+

lemma FindOne_latest_Max:
  assumes "FindOne_latest rs = Some m"
  shows "RecordedAt m = Max (RecordedAt ` set rs)"
proof -
  have "RecordedAt m \<in> RecordedAt ` set rs"
    using FindOne_latest_mem [OF assms] by simp
  moreover have "\<forall>t \<in> RecordedAt ` set rs. t \<le> RecordedAt m"
    using FindOne_latest_max [OF assms] by auto
  ultimately show ?thesis
    by (intro Max_eqI [symmetric]) auto
qed

lemma Decode_RecordedAt: "Decode d = Some r \<Longrightarrow> RecordedAt r = RecordedAt d"
  by (auto simp: Decode_def decoded_def split: bson_value.splits)

text \<open>What a unit that upserts has read and written.\<close>

lemma worker_Upserted:
  assumes "worker s w F = (Upserted, s')"
  shows "\<exists>doc m. FindOne_latest (version_runs s (AgentVersion.ID (agentVersion w))) = Some doc
           \<and> agent_version_metrics s' (AgentVersion.ID (agentVersion w)) = Some m
           \<and> LastSeen m = RecordedAt doc
           \<and> TotalRuns m = int (length (version_runs s (AgentVersion.ID (agentVersion w))))
           \<and> SuccessRate m =
               f64_scale (f64_div
                 (real_of_int (int (length (version_runs s (AgentVersion.ID (agentVersion w))))
                    - int (length (filter (\<lambda>r. AgentRun.Status r = ''error'')
                                     (version_runs s (AgentVersion.ID (agentVersion w)))))))
                 (real_of_int (int (length (version_runs s (AgentVersion.ID (agentVersion w)))))))
                 100
           \<and> (\<exists>a. Work.agent w = Some a \<and> Name m = Agent.Name a \<and> Project m = Agent.Project a)"
  using assms
  by (auto simp: worker_def Let_def Decode_RecordedAt split: if_splits option.splits)

lemma worker_no_runs:
  assumes "version_runs s (AgentVersion.ID (agentVersion w)) = []"
  shows "\<exists>st. worker s w F = (Skipped st, s)"
  using assms by (auto simp: worker_def Let_def)

text \<open>
  When no call of the store fails, the version has a run, the run recorded last can be
  decoded, and the agent of the version is known, the unit upserts.
\<close>

lemma worker_upserts:
  assumes "FindOne_latest (version_runs s (AgentVersion.ID (agentVersion w))) = Some doc"
    and "Decode doc \<noteq> None"
    and "Work.agent w \<noteq> None"
  shows "fst (worker s w {}) = Upserted"
  using assms by (auto simp: worker_def Let_def)

text \<open>
  Claim C1, as the code has it.  A unit that upserts has found at least one run of its
  version, and the success rate it writes is \<open>(N - E) / N * 100\<close>, for \<open>N\<close> runs of which \<open>E\<close>
  have the status \<open>error\<close>.  For a version with no run the unit is skipped (the lookup of
  the last run finds no document) and the store is left as it was: no success rate is
  written, neither 0 nor NaN.  A unit does upsert when no call of the store fails, the run
  recorded last can be decoded and the agent of the version is known.
\<close>

theorem worker_success_rate:
  "(length (version_runs s (AgentVersion.ID (agentVersion w))) = 0
      \<longrightarrow> (\<exists>st. worker s w F = (Skipped st, s)))
   \<and> (worker s w F = (Upserted, s')
      \<longrightarrow> 0 < length (version_runs s (AgentVersion.ID (agentVersion w)))
        \<and> (\<exists>m. agent_version_metrics s' (AgentVersion.ID (agentVersion w)) = Some m
              \<and> SuccessRate m =
                  Fin ((real (length (version_runs s (AgentVersion.ID (agentVersion w))))
                        - real (length (filter (\<lambda>r. AgentRun.Status r = ''error'')
                                   (version_runs s (AgentVersion.ID (agentVersion w))))))
                       / real (length (version_runs s (AgentVersion.ID (agentVersion w))))
                       * 100)))
   \<and> ((\<exists>doc. FindOne_latest (version_runs s (AgentVersion.ID (agentVersion w))) = Some doc
              \<and> Decode doc \<noteq> None)
        \<and> Work.agent w \<noteq> None
      \<longrightarrow> fst (worker s w {}) = Upserted)"
proof (intro conjI impI)
  assume "length (version_runs s (AgentVersion.ID (agentVersion w))) = 0"
  then show "\<exists>st. worker s w F = (Skipped st, s)"
    using worker_no_runs by simp
next
  assume "(\<exists>doc. FindOne_latest (version_runs s (AgentVersion.ID (agentVersion w))) = Some doc
              \<and> Decode doc \<noteq> None)
        \<and> Work.agent w \<noteq> None"
  then show "fst (worker s w {}) = Upserted"
    using worker_upserts by blast
next
  assume u: "worker s w F = (Upserted, s')"
  from worker_Upserted [OF u] obtain doc m where
    f: "FindOne_latest (version_runs s (AgentVersion.ID (agentVersion w))) = Some doc"
    and m: "agent_version_metrics s' (AgentVersion.ID (agentVersion w)) = Some m"
    and r: "SuccessRate m =
               f64_scale (f64_div
                 (real_of_int (int (length (version_runs s (AgentVersion.ID (agentVersion w))))
                    - int (length (filter (\<lambda>r. AgentRun.Status r = ''error'')
                                     (version_runs s (AgentVersion.ID (agentVersion w)))))))
                 (real_of_int (int (length (version_runs s (AgentVersion.ID (agentVersion w)))))))
                 100"
    by blast
  from f show pos: "0 < length (version_runs s (AgentVersion.ID (agentVersion w)))"
    by (cases "version_runs s (AgentVersion.ID (agentVersion w))") auto
  from pos m r show "\<exists>m. agent_version_metrics s' (AgentVersion.ID (agentVersion w)) = Some m
              \<and> SuccessRate m =
                  Fin ((real (length (version_runs s (AgentVersion.ID (agentVersion w))))
                        - real (length (filter (\<lambda>r. AgentRun.Status r = ''error'')
                                   (version_runs s (AgentVersion.ID (agentVersion w))))))
                       / real (length (version_runs s (AgentVersion.ID (agentVersion w))))
                       * 100)"
    by (simp add: f64_div_def)
qed

theorem worker_success_rate_witness:
  "worker example_store (work_of example_store (mk_version 10 7 ''1.0.0'')) {}
     = (Upserted, snd (worker example_store (work_of example_store (mk_version 10 7 ''1.0.0'')) {}))
   \<and> map_option SuccessRate
        (agent_version_metrics
           (snd (worker example_store (work_of example_store (mk_version 10 7 ''1.0.0'')) {})) 10)
       = Some (Fin 50)
   \<and> length (version_runs example_store 11) = 0
   \<and> worker example_store (work_of example_store (mk_version 11 7 ''1.1.0'')) {}
       = (Skipped StepFindOne, example_store)"
proof -
  let ?w = "work_of example_store (mk_version 10 7 ''1.0.0'')"
  let ?w' = "work_of example_store (mk_version 11 7 ''1.1.0'')"
  have u: "worker example_store ?w {} = (Upserted, snd (worker example_store ?w {}))"
    by (simp add: eval_defs)
  have n: "length (version_runs example_store (AgentVersion.ID (agentVersion ?w'))) = 0"
    by (simp add: ex_defs)
  have e: "version_runs example_store 10
             = [mk_run 100 7 10 100 ''success'' (BString ''1.5s'') 1 500,
                mk_run 101 7 10 200 ''error'' (BString ''2.5s'') 2 400]"
    by (simp add: ex_defs)
  have i: "AgentVersion.ID (agentVersion ?w) = 10"
    by (simp add: ex_defs)
  from worker_success_rate [of example_store ?w "{}" "snd (worker example_store ?w {})"] u
  have "\<exists>m. agent_version_metrics (snd (worker example_store ?w {})) 10 = Some m
          \<and> SuccessRate m = Fin 50"
    by (simp add: i e mk_run_def)
  moreover from worker_success_rate [of example_store ?w' "{}"] n
  obtain st where "worker example_store ?w' {} = (Skipped st, example_store)"
    by blast
  moreover have "fst (worker example_store ?w' {}) = Skipped StepFindOne"
    by (simp add: eval_defs)
  ultimately show ?thesis
    using u n by (auto simp: ex_defs)
qed

text \<open>
  Claim C1 as stated fails for \<open>N = 0\<close>: version 11 of the example has no run, its unit is
  skipped, and no document with the success rate 0 is upserted.
\<close>

theorem zero_runs_counterexample:
  "length (version_runs example_store 11) = 0
   \<and> fst (worker example_store (work_of example_store (mk_version 11 7 ''1.1.0'')) {})
       = Skipped StepFindOne
   \<and> map_option SuccessRate
        (agent_version_metrics
           (snd (worker example_store (work_of example_store (mk_version 11 7 ''1.1.0'')) {})) 11)
      \<noteq> Some (Fin 0)"
  by (simp add: eval_defs)

text \<open>
  Claim C2, as the code has it.  The document that a unit upserts has, as \<open>lastSeen\<close>, the
  greatest \<open>recorded_at\<close> among the runs of its version: the worker sorts on
  \<open>recorded_at\<close> and copies \<open>RecordedAt\<close>, and never reads \<open>created\<close>.
\<close>

theorem worker_last_seen:
  assumes "worker s w F = (Upserted, s')"
  shows "\<exists>m. agent_version_metrics s' (AgentVersion.ID (agentVersion w)) = Some m
           \<and> LastSeen m
               = Max (RecordedAt ` set (version_runs s (AgentVersion.ID (agentVersion w))))"
proof -
  from worker_Upserted [OF assms] obtain doc m where
    f: "FindOne_latest (version_runs s (AgentVersion.ID (agentVersion w))) = Some doc"
    and m: "agent_version_metrics s' (AgentVersion.ID (agentVersion w)) = Some m"
    and l: "LastSeen m = RecordedAt doc"
    by blast
  from FindOne_latest_Max [OF f] l m show ?thesis
    by simp
qed

theorem worker_last_seen_witness:
  "map_option LastSeen
     (agent_version_metrics
        (snd (worker example_store (work_of example_store (mk_version 10 7 ''1.0.0'')) {})) 10)
   = Some (Max (RecordedAt ` set (version_runs example_store 10)))
   \<and> Max (RecordedAt ` set (version_runs example_store 10)) = 500"
proof -
  let ?w = "work_of example_store (mk_version 10 7 ''1.0.0'')"
  have u: "worker example_store ?w {} = (Upserted, snd (worker example_store ?w {}))"
    by (simp add: eval_defs)
  have i: "AgentVersion.ID (agentVersion ?w) = 10"
    by (simp add: ex_defs)
  have "Max (RecordedAt ` set (version_runs example_store 10)) = 500"
    by (simp add: ex_defs)
  with worker_last_seen [OF u] show ?thesis
    by (auto simp: i)
qed

text \<open>
  Claim C2 as stated fails: the two runs of version 10 were created at 100 and 200 and
  recorded at 500 and 400; the worker writes 500, the greatest \<open>created\<close> is 200.
\<close>

theorem last_seen_counterexample:
  "map_option LastSeen
     (agent_version_metrics
        (snd (worker example_store (work_of example_store (mk_version 10 7 ''1.0.0'')) {})) 10)
   = Some 500
   \<and> Max (Created ` set (version_runs example_store 10)) = 200"
  by (simp add: eval_defs)

text \<open>
  Claim C3 fails on the code.  Version 12 belongs to agent 8, which is not among the
  agents, so the lookup gives the nil pointer; the version has a run, so its unit reaches
  \<open>work.agent.Name\<close> and panics.  Its unit upserts nothing, and the process dies: the pass
  crashes.
\<close>

theorem orphan_version_panics:
  "agentToAgentIDLookup (agents orphan_store) 8 = None
   \<and> worker orphan_store (work_of orphan_store (mk_version 12 8 ''1.0.0'')) {}
       = (Panicked, orphan_store)
   \<and> main {} (\<lambda>v. {}) orphan_store = Crashed"
  by (simp add: main_def eval_defs)

text \<open>No unit of a version whose agent is missing upserts a document.\<close>

lemma orphan_never_upserted:
  "Work.agent w = None \<Longrightarrow> fst (worker s w F) \<noteq> Upserted"
  by (auto simp: worker_def Let_def split: option.splits)

section \<open>Facts about the pass\<close>

text \<open>A unit reads the runs only, and writes at most the document of its own version.\<close>

lemma worker_agent_runs: "agent_runs (snd (worker s w F)) = agent_runs s"
  by (auto simp: worker_def Let_def split: option.splits)

lemma worker_other_key:
  "k \<noteq> AgentVersion.ID (agentVersion w)
     \<Longrightarrow> agent_version_metrics (snd (worker s w F)) k = agent_version_metrics s k"
  by (auto simp: worker_def Let_def split: option.splits)

lemma worker_not_upserted: "fst (worker s w F) \<noteq> Upserted \<Longrightarrow> snd (worker s w F) = s"
  by (auto simp: worker_def Let_def split: option.splits)

lemma version_runs_cong: "agent_runs t = agent_runs s \<Longrightarrow> version_runs t v = version_runs s v"
  by (simp add: version_runs_def)

lemma worker_outcome_cong:
  "agent_runs t = agent_runs s \<Longrightarrow> fst (worker t w F) = fst (worker s w F)"
  by (auto simp: worker_def Let_def version_runs_cong [of t s] split: option.splits)

lemma worker_document_cong:
  "agent_runs t = agent_runs s
     \<Longrightarrow> fst (worker s w F) = Upserted
     \<Longrightarrow> agent_version_metrics (snd (worker t w F)) (AgentVersion.ID (agentVersion w))
         = agent_version_metrics (snd (worker s w F)) (AgentVersion.ID (agentVersion w))"
  by (auto simp: worker_def Let_def version_runs_cong [of t s] split: option.splits if_splits)

text \<open>A unit whose agent is known does not panic, and a unit with a failing step fails.\<close>

lemma worker_known_agent:
  "Work.agent w \<noteq> None \<Longrightarrow> fst (worker s w F) \<noteq> Panicked"
  by (auto simp: worker_def Let_def split: option.splits)

lemma worker_fault_skipped:
  assumes "st \<in> F" and "Work.agent w \<noteq> None"
  shows "\<exists>st'. fst (worker s w F) = Skipped st'"
  using assms by (cases st) (auto simp: worker_def Let_def split: option.splits)

lemma dispatch_units:
  assumes "dispatch lk F t avs = Some (outs, t')"
    and "agent_runs t = agent_runs s"
    and "distinct (map AgentVersion.ID avs)"
  shows "outs = map (\<lambda>u. fst (worker s \<lparr>agent = lk (AgentVersion.AgentID u), agentVersion = u\<rparr>
                              (F (AgentVersion.ID u)))) avs
       \<and> agent_runs t' = agent_runs s
       \<and> (\<forall>k. k \<notin> AgentVersion.ID ` set avs
              \<longrightarrow> agent_version_metrics t' k = agent_version_metrics t k)
       \<and> (\<forall>u \<in> set avs.
            agent_version_metrics t' (AgentVersion.ID u)
              = (if fst (worker s \<lparr>agent = lk (AgentVersion.AgentID u), agentVersion = u\<rparr>
                           (F (AgentVersion.ID u))) = Upserted
                 then agent_version_metrics
                        (snd (worker s \<lparr>agent = lk (AgentVersion.AgentID u), agentVersion = u\<rparr>
                                (F (AgentVersion.ID u)))) (AgentVersion.ID u)
                 else agent_version_metrics t (AgentVersion.ID u)))"
  using assms
proof (induction avs arbitrary: t outs t')
  case Nil
  then show ?case by simp
next
  case (Cons av avs)
  let ?w = "\<lparr>agent = lk (AgentVersion.AgentID av), agentVersion = av\<rparr>"
  let ?r = "worker t ?w (F (AgentVersion.ID av))"
  let ?rest = "dispatch lk F (snd ?r) avs"
  have id_w: "AgentVersion.ID (agentVersion ?w) = AgentVersion.ID av"
    by simp
  from Cons.prems(1) have np: "fst ?r \<noteq> Panicked"
    by (auto simp: Let_def split: if_splits)
  with Cons.prems(1)
  have "(case ?rest of None \<Rightarrow> None | Some rest \<Rightarrow> Some (fst ?r # fst rest, snd rest))
          = Some (outs, t')"
    by (simp add: Let_def)
  then obtain outs' where rest: "?rest = Some (outs', t')" and hd_outs: "outs = fst ?r # outs'"
    by (cases ?rest) auto
  have runs1: "agent_runs (snd ?r) = agent_runs s"
    using Cons.prems(2) by (simp add: worker_agent_runs)
  from Cons.prems(3) have dist: "distinct (map AgentVersion.ID avs)"
    and fresh: "AgentVersion.ID av \<notin> AgentVersion.ID ` set avs"
    by auto
  note IH = Cons.IH [OF rest runs1 dist]
  have out_eq: "fst ?r = fst (worker s ?w (F (AgentVersion.ID av)))"
    using Cons.prems(2) by (rule worker_outcome_cong)
  have outs_eq: "outs = map (\<lambda>u. fst (worker s \<lparr>agent = lk (AgentVersion.AgentID u), agentVersion = u\<rparr>
                              (F (AgentVersion.ID u)))) (av # avs)"
    using IH by (simp add: hd_outs out_eq)
  have other: "\<forall>k. k \<notin> AgentVersion.ID ` set (av # avs)
              \<longrightarrow> agent_version_metrics t' k = agent_version_metrics t k"
  proof (intro allI impI)
    fix k assume k: "k \<notin> AgentVersion.ID ` set (av # avs)"
    then have "agent_version_metrics t' k = agent_version_metrics (snd ?r) k"
      using IH by simp
    also have "\<dots> = agent_version_metrics t k"
      using k worker_other_key [of k ?w t] by simp
    finally show "agent_version_metrics t' k = agent_version_metrics t k" .
  qed
  have own: "\<forall>u \<in> set (av # avs).
            agent_version_metrics t' (AgentVersion.ID u)
              = (if fst (worker s \<lparr>agent = lk (AgentVersion.AgentID u), agentVersion = u\<rparr>
                           (F (AgentVersion.ID u))) = Upserted
                 then agent_version_metrics
                        (snd (worker s \<lparr>agent = lk (AgentVersion.AgentID u), agentVersion = u\<rparr>
                                (F (AgentVersion.ID u)))) (AgentVersion.ID u)
                 else agent_version_metrics t (AgentVersion.ID u))"
  proof
    fix u assume u: "u \<in> set (av # avs)"
    show "agent_version_metrics t' (AgentVersion.ID u)
              = (if fst (worker s \<lparr>agent = lk (AgentVersion.AgentID u), agentVersion = u\<rparr>
                           (F (AgentVersion.ID u))) = Upserted
                 then agent_version_metrics
                        (snd (worker s \<lparr>agent = lk (AgentVersion.AgentID u), agentVersion = u\<rparr>
                                (F (AgentVersion.ID u)))) (AgentVersion.ID u)
                 else agent_version_metrics t (AgentVersion.ID u))"
    proof (cases "u \<in> set avs")
      case True
      then have ne: "AgentVersion.ID u \<noteq> AgentVersion.ID av"
        using fresh by (metis imageI)
      have "agent_version_metrics (snd ?r) (AgentVersion.ID u)
              = agent_version_metrics t (AgentVersion.ID u)"
        using ne worker_other_key [of "AgentVersion.ID u" ?w t] by simp
      with IH True show ?thesis by simp
    next
      case False
      with u have [simp]: "u = av" by simp
      have "agent_version_metrics t' (AgentVersion.ID av)
              = agent_version_metrics (snd ?r) (AgentVersion.ID av)"
        using IH fresh by simp
      moreover have "fst (worker s ?w (F (AgentVersion.ID av))) = Upserted
          \<Longrightarrow> agent_version_metrics (snd ?r) (AgentVersion.ID av)
              = agent_version_metrics (snd (worker s ?w (F (AgentVersion.ID av))))
                  (AgentVersion.ID av)"
        using worker_document_cong [OF Cons.prems(2), of ?w] by simp
      moreover have "fst (worker s ?w (F (AgentVersion.ID av))) \<noteq> Upserted
          \<Longrightarrow> agent_version_metrics (snd ?r) (AgentVersion.ID av)
              = agent_version_metrics t (AgentVersion.ID av)"
        using worker_not_upserted [of t ?w] out_eq by simp
      ultimately show ?thesis by simp
    qed
  qed
  from outs_eq IH other own show ?case by blast
qed

text \<open>
  A pass crashes exactly when the unit of one of its versions panics, whatever the order
  of the units; and the documents left by a pass that completes do not depend on the
  order of the units.
\<close>

lemma dispatch_crashes_iff:
  "dispatch lk F t avs = None
     \<longleftrightarrow> (\<exists>u \<in> set avs.
            fst (worker t \<lparr>agent = lk (AgentVersion.AgentID u), agentVersion = u\<rparr>
                   (F (AgentVersion.ID u))) = Panicked)"
proof (induction avs arbitrary: t)
  case Nil
  then show ?case by simp
next
  case (Cons av avs)
  let ?w = "\<lparr>agent = lk (AgentVersion.AgentID av), agentVersion = av\<rparr>"
  let ?r = "worker t ?w (F (AgentVersion.ID av))"
  have same: "\<And>u. fst (worker (snd ?r) \<lparr>agent = lk (AgentVersion.AgentID u), agentVersion = u\<rparr>
                         (F (AgentVersion.ID u)))
              = fst (worker t \<lparr>agent = lk (AgentVersion.AgentID u), agentVersion = u\<rparr>
                         (F (AgentVersion.ID u)))"
    by (rule worker_outcome_cong) (rule worker_agent_runs)
  show ?case
  proof (cases "fst ?r = Panicked")
    case True
    then show ?thesis by (simp add: Let_def)
  next
    case False
    then have "dispatch lk F t (av # avs) = None \<longleftrightarrow> dispatch lk F (snd ?r) avs = None"
      by (simp add: Let_def split: option.splits)
    with False show ?thesis
      by (simp add: Cons.IH same)
  qed
qed

lemma dispatch_completes:
  assumes "\<forall>u \<in> set avs. lk (AgentVersion.AgentID u) \<noteq> None"
  shows "\<exists>outs t'. dispatch lk F t avs = Some (outs, t')"
proof -
  have "dispatch lk F t avs \<noteq> None"
    unfolding dispatch_crashes_iff using assms worker_known_agent by auto
  then show ?thesis by auto
qed

lemma dispatch_order:
  assumes "dispatch lk F s avs = Some (outs, t)"
    and "dispatch lk F s avs' = Some (outs', t')"
    and "distinct (map AgentVersion.ID avs)"
    and "distinct (map AgentVersion.ID avs')"
    and "set avs = set avs'"
  shows "agent_version_metrics t = agent_version_metrics t'"
proof
  fix k
  note A = dispatch_units [OF assms(1) refl assms(3)]
  note B = dispatch_units [OF assms(2) refl assms(4)]
  show "agent_version_metrics t k = agent_version_metrics t' k"
  proof (cases "k \<in> AgentVersion.ID ` set avs")
    case True
    then obtain u where u: "u \<in> set avs" "k = AgentVersion.ID u"
      by auto
    with assms(5) have u': "u \<in> set avs'"
      by simp
    from A u have "agent_version_metrics t k
              = (if fst (worker s \<lparr>agent = lk (AgentVersion.AgentID u), agentVersion = u\<rparr>
                           (F (AgentVersion.ID u))) = Upserted
                 then agent_version_metrics
                        (snd (worker s \<lparr>agent = lk (AgentVersion.AgentID u), agentVersion = u\<rparr>
                                (F (AgentVersion.ID u)))) (AgentVersion.ID u)
                 else agent_version_metrics s (AgentVersion.ID u))"
      by simp
    moreover from B u' u(2) have "agent_version_metrics t' k
              = (if fst (worker s \<lparr>agent = lk (AgentVersion.AgentID u), agentVersion = u\<rparr>
                           (F (AgentVersion.ID u))) = Upserted
                 then agent_version_metrics
                        (snd (worker s \<lparr>agent = lk (AgentVersion.AgentID u), agentVersion = u\<rparr>
                                (F (AgentVersion.ID u)))) (AgentVersion.ID u)
                 else agent_version_metrics s (AgentVersion.ID u))"
      by simp
    ultimately show ?thesis by simp
  next
    case False
    with A have "agent_version_metrics t k = agent_version_metrics s k"
      by simp
    moreover from False assms(5) B have "agent_version_metrics t' k = agent_version_metrics s k"
      by simp
    ultimately show ?thesis by simp
  qed
qed

text \<open>
  Claim C7.  Take a pass whose initial reads succeed, over versions whose agents are all
  known, and a version \<open>av\<close> whose unit fails, that is, does not upsert (a query, the
  decoding or the upsert fails).  Then the pass completes: no unit panics and no unit is
  cancelled, every version has the outcome of its own unit; the document of \<open>av\<close> is left
  as it was; and every other version whose unit upserts has, after the pass, the document
  that its unit wrote.
\<close>

theorem unit_failure_isolated:
  assumes "distinct (map AgentVersion.ID (agent_versions s))"
    and "\<forall>u \<in> set (agent_versions s).
           agentToAgentIDLookup (agents s) (AgentVersion.AgentID u) \<noteq> None"
    and "av \<in> set (agent_versions s)"
    and "fst (worker s (work_of s av) (F (AgentVersion.ID av))) \<noteq> Upserted"
  shows "\<exists>outs s'. main {} F s = Completed outs s'
       \<and> outs = map (\<lambda>u. fst (worker s (work_of s u) (F (AgentVersion.ID u)))) (agent_versions s)
       \<and> Panicked \<notin> set outs
       \<and> (\<exists>st. fst (worker s (work_of s av) (F (AgentVersion.ID av))) = Skipped st)
       \<and> agent_version_metrics s' (AgentVersion.ID av)
           = agent_version_metrics s (AgentVersion.ID av)
       \<and> (\<forall>u \<in> set (agent_versions s).
             u \<noteq> av \<longrightarrow> fst (worker s (work_of s u) (F (AgentVersion.ID u))) = Upserted
             \<longrightarrow> (\<exists>m. agent_version_metrics s' (AgentVersion.ID u) = Some m
                    \<and> agent_version_metrics
                         (snd (worker s (work_of s u) (F (AgentVersion.ID u))))
                         (AgentVersion.ID u) = Some m))"
proof -
  let ?lk = "agentToAgentIDLookup (agents s)"
  from dispatch_completes [OF assms(2)] obtain outs s' where
    d: "dispatch ?lk F s (agent_versions s) = Some (outs, s')"
    by blast
  then have m: "main {} F s = Completed outs s'"
    by (simp add: main_def)
  note U = dispatch_units [OF d refl assms(1), folded work_of_def]
  have np: "\<And>u. u \<in> set (agent_versions s)
              \<Longrightarrow> fst (worker s (work_of s u) (F (AgentVersion.ID u))) \<noteq> Panicked"
    using assms(2) by (intro worker_known_agent) (simp add: work_of_def)
  from U have o: "outs = map (\<lambda>u. fst (worker s (work_of s u) (F (AgentVersion.ID u))))
                           (agent_versions s)"
    by simp
  have p: "Panicked \<notin> set outs"
  proof
    assume "Panicked \<in> set outs"
    then obtain u where "u \<in> set (agent_versions s)"
      "fst (worker s (work_of s u) (F (AgentVersion.ID u))) = Panicked"
      unfolding o by auto
    with np show False by blast
  qed
  from np [OF assms(3)] assms(4)
  have sk: "\<exists>st. fst (worker s (work_of s av) (F (AgentVersion.ID av))) = Skipped st"
    by (cases "fst (worker s (work_of s av) (F (AgentVersion.ID av)))") auto
  from U assms(3,4)
  have own: "agent_version_metrics s' (AgentVersion.ID av)
               = agent_version_metrics s (AgentVersion.ID av)"
    by simp
  have others: "\<forall>u \<in> set (agent_versions s).
             u \<noteq> av \<longrightarrow> fst (worker s (work_of s u) (F (AgentVersion.ID u))) = Upserted
             \<longrightarrow> (\<exists>m. agent_version_metrics s' (AgentVersion.ID u) = Some m
                    \<and> agent_version_metrics
                         (snd (worker s (work_of s u) (F (AgentVersion.ID u))))
                         (AgentVersion.ID u) = Some m)"
  proof (intro ballI impI)
    fix u assume u: "u \<in> set (agent_versions s)"
      and up: "fst (worker s (work_of s u) (F (AgentVersion.ID u))) = Upserted"
    have w: "worker s (work_of s u) (F (AgentVersion.ID u))
               = (Upserted, snd (worker s (work_of s u) (F (AgentVersion.ID u))))"
      using up by (simp add: prod_eq_iff)
    from worker_Upserted [OF w] obtain m where
      "agent_version_metrics (snd (worker s (work_of s u) (F (AgentVersion.ID u))))
         (AgentVersion.ID u) = Some m"
      by (auto simp: work_of_def)
    with U u up show "\<exists>m. agent_version_metrics s' (AgentVersion.ID u) = Some m
                    \<and> agent_version_metrics
                         (snd (worker s (work_of s u) (F (AgentVersion.ID u))))
                         (AgentVersion.ID u) = Some m"
      by simp
  qed
  from m o p sk own others show ?thesis
    by blast
qed

lemma example_store_facts:
  "distinct (map AgentVersion.ID (agent_versions example_store))"
  "\<forall>u \<in> set (agent_versions example_store).
     agentToAgentIDLookup (agents example_store) (AgentVersion.AgentID u) \<noteq> None"
  "mk_version 10 7 ''1.0.0'' \<in> set (agent_versions example_store)"
  "mk_version 13 7 ''1.2.0'' \<in> set (agent_versions example_store)"
  by (simp_all add: ex_defs)

lemma example_passes:
  "outcomes_of (main {} upsert_fails_for_10 example_store)
     = Some [Skipped StepUpsert, Skipped StepFindOne, Upserted]"
  "outcomes_of (main {} decode_fails_for_13 example_store)
     = Some [Upserted, Skipped StepFindOne, Skipped StepDecode]"
  "outcomes_of (main {} (\<lambda>v. {}) example_store)
     = Some [Upserted, Skipped StepFindOne, Upserted]"
  by (simp_all add: outcomes_of_def main_def upsert_fails_for_10_def decode_fails_for_13_def
      eval_defs)

lemma example_documents:
  "map_option (map_option TotalRuns \<circ> (\<lambda>t. agent_version_metrics t 10))
     (store_after (main {} upsert_fails_for_10 example_store)) = Some None"
  "map_option (map_option TotalRuns \<circ> (\<lambda>t. agent_version_metrics t 13))
     (store_after (main {} upsert_fails_for_10 example_store)) = Some (Some 1)"
  "map_option (map_option TotalRuns \<circ> (\<lambda>t. agent_version_metrics t 10))
     (store_after (main {} decode_fails_for_13 example_store)) = Some (Some 2)"
  "map_option (map_option TotalRuns \<circ> (\<lambda>t. agent_version_metrics t 13))
     (store_after (main {} decode_fails_for_13 example_store)) = Some None"
  by (simp_all add: store_after_def main_def upsert_fails_for_10_def decode_fails_for_13_def
      eval_defs)

theorem unit_failure_isolated_witness:
  "fst (worker example_store (work_of example_store (mk_version 10 7 ''1.0.0''))
          (upsert_fails_for_10 10)) = Skipped StepUpsert
   \<and> outcomes_of (main {} upsert_fails_for_10 example_store)
       = Some [Skipped StepUpsert, Skipped StepFindOne, Upserted]
   \<and> map_option (map_option TotalRuns \<circ> (\<lambda>t. agent_version_metrics t 10))
        (store_after (main {} upsert_fails_for_10 example_store)) = Some None
   \<and> map_option (map_option TotalRuns \<circ> (\<lambda>t. agent_version_metrics t 13))
        (store_after (main {} upsert_fails_for_10 example_store)) = Some (Some 1)
   \<and> fst (worker example_store (work_of example_store (mk_version 13 7 ''1.2.0''))
            (decode_fails_for_13 13)) = Skipped StepDecode
   \<and> outcomes_of (main {} decode_fails_for_13 example_store)
       = Some [Upserted, Skipped StepFindOne, Skipped StepDecode]
   \<and> map_option (map_option TotalRuns \<circ> (\<lambda>t. agent_version_metrics t 13))
        (store_after (main {} decode_fails_for_13 example_store)) = Some None
   \<and> map_option (map_option TotalRuns \<circ> (\<lambda>t. agent_version_metrics t 10))
        (store_after (main {} decode_fails_for_13 example_store)) = Some (Some 2)"
proof -
  let ?v10 = "mk_version 10 7 ''1.0.0''"
  let ?v13 = "mk_version 13 7 ''1.2.0''"
  have i10: "AgentVersion.ID ?v10 = 10" and i13: "AgentVersion.ID ?v13 = 13"
    by (simp_all add: mk_version_def)
  have f10: "fst (worker example_store (work_of example_store ?v10)
                   (upsert_fails_for_10 (AgentVersion.ID ?v10))) = Skipped StepUpsert"
    by (simp add: upsert_fails_for_10_def eval_defs)
  have f13: "fst (worker example_store (work_of example_store ?v13)
                   (decode_fails_for_13 (AgentVersion.ID ?v13))) = Skipped StepDecode"
    by (simp add: decode_fails_for_13_def eval_defs)
  have n10: "fst (worker example_store (work_of example_store ?v10)
                   (upsert_fails_for_10 (AgentVersion.ID ?v10))) \<noteq> Upserted"
    by (simp add: f10)
  have n13: "fst (worker example_store (work_of example_store ?v13)
                   (decode_fails_for_13 (AgentVersion.ID ?v13))) \<noteq> Upserted"
    by (simp add: f13)
  from unit_failure_isolated [where F = upsert_fails_for_10, OF example_store_facts(1,2,3) n10]
  obtain outs s' where a: "main {} upsert_fails_for_10 example_store = Completed outs s'"
    "agent_version_metrics s' (AgentVersion.ID ?v10)
       = agent_version_metrics example_store (AgentVersion.ID ?v10)"
    by blast
  from unit_failure_isolated [where F = decode_fails_for_13, OF example_store_facts(1,2,4) n13]
  obtain outs2 s2 where b: "main {} decode_fails_for_13 example_store = Completed outs2 s2"
    "agent_version_metrics s2 (AgentVersion.ID ?v13)
       = agent_version_metrics example_store (AgentVersion.ID ?v13)"
    by blast
  from a have "map_option (map_option TotalRuns \<circ> (\<lambda>t. agent_version_metrics t 10))
        (store_after (main {} upsert_fails_for_10 example_store)) = Some None"
    by (simp add: store_after_def i10 example_store_def)
  moreover from b have "map_option (map_option TotalRuns \<circ> (\<lambda>t. agent_version_metrics t 13))
        (store_after (main {} decode_fails_for_13 example_store)) = Some None"
    by (simp add: store_after_def i13 example_store_def)
  ultimately show ?thesis
    using f10 f13 example_passes(1,2) example_documents(2,3)
    by (simp add: i10 i13)
qed

lemma map_add_twice: "(m ++ E) ++ E = m ++ E"
  by (rule ext) (simp add: map_add_def split: option.splits)

text \<open>
  The outcome of a unit and the document it writes depend on the runs only: on every
  store with the same runs the unit has the same outcome and adds the same entries.
\<close>

lemma worker_effect:
  "\<exists>out E. \<forall>t. agent_runs t = R
      \<longrightarrow> worker t w F = (out, t\<lparr>agent_version_metrics := agent_version_metrics t ++ E\<rparr>)"
proof -
  let ?s0 = "\<lparr>agents = [], agent_versions = [], agent_runs = R,
               agent_version_metrics = Map.empty\<rparr>"
  have "\<forall>t. agent_runs t = R
      \<longrightarrow> worker t w F
          = (fst (worker ?s0 w F),
             t\<lparr>agent_version_metrics :=
                  agent_version_metrics t ++ agent_version_metrics (snd (worker ?s0 w F))\<rparr>)"
    by (auto simp: worker_def Let_def version_runs_def split: option.splits)
  then show ?thesis by blast
qed

lemma dispatch_effect:
  "\<exists>r. \<forall>t. agent_runs t = R
      \<longrightarrow> dispatch lk F t avs
          = map_option
              (\<lambda>oe. (fst oe, t\<lparr>agent_version_metrics := agent_version_metrics t ++ snd oe\<rparr>)) r"
proof (induction avs)
  case Nil
  have "\<forall>t. agent_runs t = R
      \<longrightarrow> dispatch lk F t []
          = map_option
              (\<lambda>oe. (fst oe, t\<lparr>agent_version_metrics := agent_version_metrics t ++ snd oe\<rparr>))
              (Some ([], Map.empty))"
    by simp
  then show ?case by blast
next
  case (Cons av avs)
  let ?w = "\<lparr>agent = lk (AgentVersion.AgentID av), agentVersion = av\<rparr>"
  from worker_effect [of R ?w "F (AgentVersion.ID av)"] obtain out E1 where
    w: "\<And>t. agent_runs t = R
          \<Longrightarrow> worker t ?w (F (AgentVersion.ID av))
              = (out, t\<lparr>agent_version_metrics := agent_version_metrics t ++ E1\<rparr>)"
    by blast
  from Cons.IH obtain r where
    d: "\<And>t. agent_runs t = R
          \<Longrightarrow> dispatch lk F t avs
              = map_option
                  (\<lambda>oe. (fst oe, t\<lparr>agent_version_metrics := agent_version_metrics t ++ snd oe\<rparr>))
                  r"
    by blast
  show ?case
  proof (cases "out = Panicked")
    case True
    have "\<forall>t. agent_runs t = R
      \<longrightarrow> dispatch lk F t (av # avs)
          = map_option
              (\<lambda>oe. (fst oe, t\<lparr>agent_version_metrics := agent_version_metrics t ++ snd oe\<rparr>))
              None"
      using True by (simp add: w)
    then show ?thesis by blast
  next
    case False
    have "\<forall>t. agent_runs t = R
      \<longrightarrow> dispatch lk F t (av # avs)
          = map_option
              (\<lambda>oe. (fst oe, t\<lparr>agent_version_metrics := agent_version_metrics t ++ snd oe\<rparr>))
              (map_option (\<lambda>oe. (out # fst oe, E1 ++ snd oe)) r)"
      using False by (cases r) (simp_all add: w d)
    then show ?thesis by blast
  qed
qed

text \<open>
  Claim C8.  When a pass completes, a second pass over the store that it left, with the
  same agents, versions and runs (and the same failures of the store, none in particular),
  completes with the same outcomes and leaves every metrics document as the first pass
  left it.
\<close>

theorem main_idempotent:
  assumes "main G F s = Completed outs s'"
  shows "main G F s' = Completed outs s'"
proof -
  let ?lk = "agentToAgentIDLookup (agents s)"
  from assms have g: "FetchAgents \<notin> G" "DecodeAgents \<notin> G" "FetchVersions \<notin> G"
    "DecodeVersions \<notin> G"
    by (auto simp: main_def split: if_splits)
  with assms have d0: "dispatch ?lk F s (agent_versions s) = Some (outs, s')"
    by (auto simp: main_def split: option.splits)
  from dispatch_effect [of "agent_runs s" ?lk F "agent_versions s"] obtain r where
    d: "\<And>t. agent_runs t = agent_runs s
          \<Longrightarrow> dispatch ?lk F t (agent_versions s)
              = map_option
                  (\<lambda>oe. (fst oe, t\<lparr>agent_version_metrics := agent_version_metrics t ++ snd oe\<rparr>))
                  r"
    by blast
  from d [OF refl] d0 obtain E where
    r: "r = Some (outs, E)"
    and s': "s' = s\<lparr>agent_version_metrics := agent_version_metrics s ++ E\<rparr>"
    by (cases r) auto
  have "dispatch ?lk F s' (agent_versions s)
          = Some (outs, s'\<lparr>agent_version_metrics := agent_version_metrics s' ++ E\<rparr>)"
    using d [of s'] by (simp add: r s')
  also have "s'\<lparr>agent_version_metrics := agent_version_metrics s' ++ E\<rparr> = s'"
    by (simp add: s' map_add_twice)
  finally have "dispatch (agentToAgentIDLookup (agents s')) F s' (agent_versions s')
                  = Some (outs, s')"
    by (simp add: s')
  with g show ?thesis
    by (simp add: main_def)
qed

theorem main_idempotent_witness:
  "outcomes_of (main {} (\<lambda>v. {}) example_store) = Some [Upserted, Skipped StepFindOne, Upserted]
   \<and> map_option (main {} (\<lambda>v. {})) (store_after (main {} (\<lambda>v. {}) example_store))
       = Some (main {} (\<lambda>v. {}) example_store)"
proof -
  obtain outs s' where c: "main {} (\<lambda>v. {}) example_store = Completed outs s'"
    using example_passes(3) by (cases "main {} (\<lambda>v. {}) example_store")
      (simp_all add: outcomes_of_def)
  from main_idempotent [OF c] c example_passes(3) show ?thesis
    by (simp add: store_after_def)
qed

section \<open>Facts about the dashboard\<close>

lemma getActiveAgentsCount_up:
  "getActiveAgentsCount s d t = Inr n \<Longrightarrow> getActiveAgentsCount s False t = Inr n"
  by (auto simp: getActiveAgentsCount_def split: if_splits)

lemma getRunsCount_up: "getRunsCount s d a b = Inr n \<Longrightarrow> getRunsCount s False a b = Inr n"
  by (auto simp: getRunsCount_def split: if_splits)

lemma getAvgResponseTime_up:
  "getAvgResponseTime toD s d a b = Inr x \<Longrightarrow> getAvgResponseTime toD s False a b = Inr x"
  by (auto simp: getAvgResponseTime_def split: if_splits)

lemma getTotalCost_up: "getTotalCost s d a b = Inr x \<Longrightarrow> getTotalCost s False a b = Inr x"
  by (auto simp: getTotalCost_def split: if_splits)

text \<open>What a successful call of \<open>GetDashboardStats\<close> has read, and the fields it reports.\<close>

lemma GetDashboardStats_Inr:
  assumes "GetDashboardStats fmtf toD off s Q now = Inr stats"
  shows "\<exists>an al rt ry a p ct cy.
           getActiveAgentsCount s False (last48Hours now) = Inr an
         \<and> getActiveAgentsCount s False (lastWeek off now) = Inr al
         \<and> getRunsCount s False (today off now) now = Inr rt
         \<and> getRunsCount s False (yesterday off now) (today off now) = Inr ry
         \<and> getAvgResponseTime toD s False (lastHour now) now = Inr a
         \<and> getAvgResponseTime toD s False (lastHour now - hour_ms) (lastHour now) = Inr p
         \<and> getTotalCost s False (today off now) now = Inr ct
         \<and> getTotalCost s False (yesterday off now) (today off now) = Inr cy
         \<and> length stats = 4
         \<and> Trend (stats ! 0)
             = (if an - al < 0 then ''down'' else if an - al = 0 then ''neutral'' else ''up'')
         \<and> Value (stats ! 1) = formatNumber rt
         \<and> Trend (stats ! 1)
             = (if 0 < ry
                then (if rt < ry then ''down'' else if rt = ry then ''neutral'' else ''up'')
                else ''neutral'')
         \<and> Trend (stats ! 2)
             = (if p < a then ''up'' else if p = a then ''neutral'' else ''down'')
         \<and> Change (stats ! 2)
             = (if p < a then ''+'' else if p = a then [] else ''-'')
               @ fmtf 1 \<bar>p - a\<bar> @ ''s from last hour''
         \<and> Trend (stats ! 3)
             = (if 0 < cy
                then (if ct < cy then ''down'' else if ct = cy then ''neutral'' else ''up'')
                else ''neutral'')"
proof -
  from assms obtain an al rt ry a p ct cy where
    q: "getActiveAgentsCount s (QActiveNow \<in> Q) (last48Hours now) = Inr an"
       "getActiveAgentsCount s (QActiveLastWeek \<in> Q) (lastWeek off now) = Inr al"
       "getRunsCount s (QRunsToday \<in> Q) (today off now) now = Inr rt"
       "getRunsCount s (QRunsYesterday \<in> Q) (yesterday off now) (today off now) = Inr ry"
       "getAvgResponseTime toD s (QAvgNow \<in> Q) (lastHour now) now = Inr a"
       "getAvgResponseTime toD s (QAvgPrev \<in> Q) (lastHour now - hour_ms) (lastHour now) = Inr p"
       "getTotalCost s (QCostToday \<in> Q) (today off now) now = Inr ct"
       "getTotalCost s (QCostYesterday \<in> Q) (yesterday off now) (today off now) = Inr cy"
    by (auto simp: GetDashboardStats_def Let_def split: sum.splits)
  from assms have st: "stats = projr (GetDashboardStats fmtf toD off s Q now)"
    by simp
  have l: "length stats = 4"
    unfolding st by (simp add: GetDashboardStats_def q Let_def)
  have t0: "Trend (stats ! 0)
             = (if an - al < 0 then ''down'' else if an - al = 0 then ''neutral'' else ''up'')"
    unfolding st by (simp add: GetDashboardStats_def q Let_def)
  have v1: "Value (stats ! 1) = formatNumber rt"
    unfolding st by (simp add: GetDashboardStats_def q Let_def)
  have t1: "Trend (stats ! 1)
             = (if 0 < ry
                then (if rt < ry then ''down'' else if rt = ry then ''neutral'' else ''up'')
                else ''neutral'')"
    unfolding st
    by (simp add: GetDashboardStats_def q Let_def divide_less_0_iff)
  have t2: "Trend (stats ! 2)
             = (if p < a then ''up'' else if p = a then ''neutral'' else ''down'')"
    unfolding st by (simp add: GetDashboardStats_def q Let_def)
  have c2: "Change (stats ! 2)
             = (if p < a then ''+'' else if p = a then [] else ''-'')
               @ fmtf 1 \<bar>p - a\<bar> @ ''s from last hour''"
    unfolding st by (simp add: GetDashboardStats_def q Let_def)
  have t3: "Trend (stats ! 3)
             = (if 0 < cy
                then (if ct < cy then ''down'' else if ct = cy then ''neutral'' else ''up'')
                else ''neutral'')"
    unfolding st
    by (simp add: GetDashboardStats_def q Let_def divide_less_0_iff)
  note q' = getActiveAgentsCount_up [OF q(1)] getActiveAgentsCount_up [OF q(2)]
    getRunsCount_up [OF q(3)] getRunsCount_up [OF q(4)]
    getAvgResponseTime_up [OF q(5)] getAvgResponseTime_up [OF q(6)]
    getTotalCost_up [OF q(7)] getTotalCost_up [OF q(8)]
  show ?thesis
    by (intro exI conjI) (rule q' l t0 v1 t1 t2 c2 t3)+
qed

text \<open>The call succeeds when its eight queries do.\<close>

lemma GetDashboardStats_succeeds:
  assumes "getActiveAgentsCount s (QActiveNow \<in> Q) (last48Hours now) = Inr an"
    and "getActiveAgentsCount s (QActiveLastWeek \<in> Q) (lastWeek off now) = Inr al"
    and "getRunsCount s (QRunsToday \<in> Q) (today off now) now = Inr rt"
    and "getRunsCount s (QRunsYesterday \<in> Q) (yesterday off now) (today off now) = Inr ry"
    and "getAvgResponseTime toD s (QAvgNow \<in> Q) (lastHour now) now = Inr a"
    and "getAvgResponseTime toD s (QAvgPrev \<in> Q) (lastHour now - hour_ms) (lastHour now) = Inr p"
    and "getTotalCost s (QCostToday \<in> Q) (today off now) now = Inr ct"
    and "getTotalCost s (QCostYesterday \<in> Q) (yesterday off now) (today off now) = Inr cy"
  shows "\<exists>stats. GetDashboardStats fmtf toD off s Q now = Inr stats"
  by (simp add: GetDashboardStats_def assms Let_def)

lemmas dash_defs = dash_store_def yesterday_store_def slower_store_def mixed_store_def unparseable_store_def
  strings_store_def example_now_def mk_run_def mk_version_def agent1_def lastHour_def
  hour_ms_def day_ms_def today_def yesterday_def lastWeek_def last48Hours_def

lemmas query_defs = getActiveAgentsCount_def getRunsCount_def getAvgResponseTime_def
  getTotalCost_def replaceAll_s_def remove_s_def toDouble_def avg_acc_def numeric_values_def
  is_int32_def decimal_conversion_def decimal_unsigned_def is_digit_def nat_of_digits_def digit_val_def

lemma dash_store_queries:
  "getActiveAgentsCount dash_store False (last48Hours example_now) = Inr 1"
  "getActiveAgentsCount dash_store False (lastWeek 0 example_now) = Inr 1"
  "getRunsCount dash_store False (today 0 example_now) example_now = Inr 2"
  "getRunsCount dash_store False (yesterday 0 example_now) (today 0 example_now) = Inr 0"
  "getAvgResponseTime decimal_conversion dash_store False (lastHour example_now) example_now = Inr 3"
  "getAvgResponseTime decimal_conversion dash_store False (lastHour example_now - hour_ms) (lastHour example_now)
     = Inr 5"
  "getTotalCost dash_store False (today 0 example_now) example_now = Inr 3"
  "getTotalCost dash_store False (yesterday 0 example_now) (today 0 example_now) = Inr 0"
  by (simp_all add: query_defs dash_defs)

lemma yesterday_store_queries:
  "getActiveAgentsCount yesterday_store False (last48Hours example_now) = Inr 1"
  "getActiveAgentsCount yesterday_store False (lastWeek 0 example_now) = Inr 1"
  "getRunsCount yesterday_store False (today 0 example_now) example_now = Inr 2"
  "getRunsCount yesterday_store False (yesterday 0 example_now) (today 0 example_now) = Inr 1"
  "getAvgResponseTime decimal_conversion yesterday_store False (lastHour example_now) example_now = Inr 3"
  "getAvgResponseTime decimal_conversion yesterday_store False (lastHour example_now - hour_ms)
     (lastHour example_now) = Inr 5"
  "getTotalCost yesterday_store False (today 0 example_now) example_now = Inr 3"
  "getTotalCost yesterday_store False (yesterday 0 example_now) (today 0 example_now) = Inr 1"
  by (simp_all add: query_defs dash_defs)

lemma dash_store_stats:
  "GetDashboardStats fmtf_example decimal_conversion 0 dash_store {} example_now
     = Inr (projr (GetDashboardStats fmtf_example decimal_conversion 0 dash_store {} example_now))"
  by (simp add: GetDashboardStats_def dash_store_queries Let_def)

lemma yesterday_store_stats:
  "GetDashboardStats fmtf_example decimal_conversion 0 yesterday_store {} example_now
     = Inr (projr (GetDashboardStats fmtf_example decimal_conversion 0 yesterday_store {} example_now))"
  by (simp add: GetDashboardStats_def yesterday_store_queries Let_def)

lemma slower_store_queries:
  "getAvgResponseTime decimal_conversion slower_store False (lastHour example_now) example_now
     = Inr 5"
  "getAvgResponseTime decimal_conversion slower_store False (lastHour example_now - hour_ms)
     (lastHour example_now) = Inr 3"
  "getActiveAgentsCount slower_store False (last48Hours example_now) = Inr 1"
  "getActiveAgentsCount slower_store False (lastWeek 0 example_now) = Inr 1"
  "getRunsCount slower_store False (today 0 example_now) example_now = Inr 2"
  "getRunsCount slower_store False (yesterday 0 example_now) (today 0 example_now) = Inr 0"
  "getTotalCost slower_store False (today 0 example_now) example_now = Inr 3"
  "getTotalCost slower_store False (yesterday 0 example_now) (today 0 example_now) = Inr 0"
  by (simp_all add: query_defs dash_defs)

lemma slower_store_stats:
  "GetDashboardStats fmtf_example decimal_conversion 0 slower_store {} example_now
     = Inr (projr (GetDashboardStats fmtf_example decimal_conversion 0 slower_store {}
                     example_now))"
  by (simp add: GetDashboardStats_def slower_store_queries Let_def)

lemma dash_store_trends:
  "map Trend (projr (GetDashboardStats fmtf_example decimal_conversion 0 dash_store {} example_now))
     = [''neutral'', ''neutral'', ''down'', ''neutral'']"
  by (simp add: GetDashboardStats_def dash_store_queries Let_def)

lemma yesterday_store_trends:
  "map Trend (projr (GetDashboardStats fmtf_example decimal_conversion 0 yesterday_store {} example_now))
     = [''neutral'', ''up'', ''down'', ''up'']"
  by (simp add: GetDashboardStats_def yesterday_store_queries Let_def)

lemma dash_store_trend_nth:
  "k < 4 \<Longrightarrow>
     Trend (projr (GetDashboardStats fmtf_example decimal_conversion 0 dash_store {} example_now) ! k)
       = [''neutral'', ''neutral'', ''down'', ''neutral''] ! k"
proof -
  assume k: "k < 4"
  have "length (map Trend (projr (GetDashboardStats fmtf_example decimal_conversion 0 dash_store {} example_now)))
          = 4"
    by (simp only: dash_store_trends) simp
  then have "k < length (projr (GetDashboardStats fmtf_example decimal_conversion 0 dash_store {} example_now))"
    using k by simp
  then have "Trend (projr (GetDashboardStats fmtf_example decimal_conversion 0 dash_store {} example_now) ! k)
          = map Trend (projr (GetDashboardStats fmtf_example decimal_conversion 0 dash_store {} example_now)) ! k"
    by simp
  then show ?thesis
    by (simp only: dash_store_trends)
qed

text \<open>
  Claim C4, as the code has it.  When the average run time of the last hour is strictly
  below that of the hour before, the trend reported for \<open>Avg Response Time\<close> is \<open>down\<close>, and
  the change reported is the absolute difference of the two averages, in seconds, after
  the prefix \<open>-\<close>.  When it is strictly above, the trend is \<open>up\<close> and the prefix is \<open>+\<close>.
\<close>

theorem response_time_trend:
  assumes "GetDashboardStats fmtf toD off s Q now = Inr stats"
    and "getAvgResponseTime toD s False (lastHour now) now = Inr a"
    and "getAvgResponseTime toD s False (lastHour now - hour_ms) (lastHour now) = Inr p"
  shows "(a < p \<longrightarrow> Trend (stats ! 2) = ''down''
                 \<and> Change (stats ! 2) = ''-'' @ fmtf 1 \<bar>p - a\<bar> @ ''s from last hour'')
       \<and> (p < a \<longrightarrow> Trend (stats ! 2) = ''up''
                 \<and> Change (stats ! 2) = ''+'' @ fmtf 1 \<bar>p - a\<bar> @ ''s from last hour'')"
proof -
  from GetDashboardStats_Inr [OF assms(1)] assms(2,3) have
    "Trend (stats ! 2) = (if p < a then ''up'' else if p = a then ''neutral'' else ''down'')"
    "Change (stats ! 2) = (if p < a then ''+'' else if p = a then [] else ''-'')
               @ fmtf 1 \<bar>p - a\<bar> @ ''s from last hour''"
    by auto
  then show ?thesis by simp
qed

theorem response_time_trend_witness:
  "(3::real) < 5
   \<and> Trend (projr (GetDashboardStats fmtf_example decimal_conversion 0 dash_store {}
                      example_now) ! 2) = ''down''
   \<and> Change (projr (GetDashboardStats fmtf_example decimal_conversion 0 dash_store {}
                       example_now) ! 2) = ''-2s from last hour''
   \<and> Trend (projr (GetDashboardStats fmtf_example decimal_conversion 0 slower_store {}
                      example_now) ! 2) = ''up''
   \<and> Change (projr (GetDashboardStats fmtf_example decimal_conversion 0 slower_store {}
                       example_now) ! 2) = ''+2s from last hour''"
proof -
  have f: "fmtf_example 1 \<bar>5 - 3\<bar> = ''2''" "fmtf_example 1 \<bar>3 - 5\<bar> = ''2''"
    by (simp_all add: fmtf_example_def trunc_int_def fmt_d_def digits.simps digit_char_def)
  have "Trend (projr (GetDashboardStats fmtf_example decimal_conversion 0 dash_store {}
                        example_now) ! 2) = ''down''
      \<and> Change (projr (GetDashboardStats fmtf_example decimal_conversion 0 dash_store {}
                         example_now) ! 2) = ''-2s from last hour''"
    using response_time_trend [OF dash_store_stats dash_store_queries(5) dash_store_queries(6)] f
    by simp
  moreover
  have "Trend (projr (GetDashboardStats fmtf_example decimal_conversion 0 slower_store {}
                        example_now) ! 2) = ''up''
      \<and> Change (projr (GetDashboardStats fmtf_example decimal_conversion 0 slower_store {}
                         example_now) ! 2) = ''+2s from last hour''"
    using response_time_trend [OF slower_store_stats slower_store_queries(1)
        slower_store_queries(2)] f
    by simp
  ultimately show ?thesis by simp
qed

text \<open>
  Claim C4 as stated fails: in the example the average goes from 5 seconds to 3 seconds,
  a strict decrease, and the trend reported is \<open>down\<close>, not \<open>up\<close>.
\<close>

theorem response_time_trend_counterexample:
  "getAvgResponseTime decimal_conversion dash_store False (lastHour example_now) example_now = Inr 3
   \<and> getAvgResponseTime decimal_conversion dash_store False (lastHour example_now - hour_ms) (lastHour example_now)
       = Inr 5
   \<and> map_sum id (\<lambda>stats. Trend (stats ! 2))
        (GetDashboardStats fmtf_example decimal_conversion 0 dash_store {} example_now) = Inr ''down''"
proof -
  have "map_sum id (\<lambda>stats. Trend (stats ! 2))
          (GetDashboardStats fmtf_example decimal_conversion 0 dash_store {} example_now)
        = Inr (Trend (projr (GetDashboardStats fmtf_example decimal_conversion 0 dash_store {} example_now) ! 2))"
    by (subst dash_store_stats) simp
  then show ?thesis
    by (simp add: dash_store_queries dash_store_trend_nth)
qed

text \<open>
  Claim C5, as the code has it.  For \<open>Total Runs Today\<close> and \<open>Total Cost Today\<close>: when the
  value of the comparison window is positive, the trend is \<open>neutral\<close> exactly when the two
  values are equal and \<open>up\<close> exactly when the current value is the greater; when the value of
  the comparison window is zero (or, for a cost, negative), the percent change is set to 0
  and the trend is \<open>neutral\<close> whatever the current value.
\<close>

theorem percent_change_trend:
  assumes "GetDashboardStats fmtf toD off s Q now = Inr stats"
    and "getRunsCount s False (today off now) now = Inr rt"
    and "getRunsCount s False (yesterday off now) (today off now) = Inr ry"
    and "getTotalCost s False (today off now) now = Inr ct"
    and "getTotalCost s False (yesterday off now) (today off now) = Inr cy"
  shows "(0 < ry \<longrightarrow> ((Trend (stats ! 1) = ''neutral'') = (rt = ry))
                   \<and> ((Trend (stats ! 1) = ''up'') = (ry < rt)))
       \<and> (ry \<le> 0 \<longrightarrow> Trend (stats ! 1) = ''neutral'')
       \<and> (0 < cy \<longrightarrow> ((Trend (stats ! 3) = ''neutral'') = (ct = cy))
                   \<and> ((Trend (stats ! 3) = ''up'') = (cy < ct)))
       \<and> (cy \<le> 0 \<longrightarrow> Trend (stats ! 3) = ''neutral'')"
proof -
  from GetDashboardStats_Inr [OF assms(1)] assms(2-5) have
    r: "Trend (stats ! 1)
             = (if 0 < ry
                then (if rt < ry then ''down'' else if rt = ry then ''neutral'' else ''up'')
                else ''neutral'')"
    and c: "Trend (stats ! 3)
             = (if 0 < cy
                then (if ct < cy then ''down'' else if ct = cy then ''neutral'' else ''up'')
                else ''neutral'')"
    by auto
  show ?thesis
    unfolding r c by auto
qed

theorem percent_change_trend_witness:
  "Trend (projr (GetDashboardStats fmtf_example decimal_conversion 0 yesterday_store {} example_now) ! 1) = ''up''
   \<and> Trend (projr (GetDashboardStats fmtf_example decimal_conversion 0 yesterday_store {} example_now) ! 3) = ''up''
   \<and> Trend (projr (GetDashboardStats fmtf_example decimal_conversion 0 dash_store {} example_now) ! 1) = ''neutral''
   \<and> Trend (projr (GetDashboardStats fmtf_example decimal_conversion 0 dash_store {} example_now) ! 3) = ''neutral''"
proof -
  let ?y = "projr (GetDashboardStats fmtf_example decimal_conversion 0 yesterday_store {} example_now)"
  let ?d = "projr (GetDashboardStats fmtf_example decimal_conversion 0 dash_store {} example_now)"
  have "Trend (?y ! 1) = ''up'' \<and> Trend (?y ! 3) = ''up''"
    using percent_change_trend [OF yesterday_store_stats yesterday_store_queries(3)
      yesterday_store_queries(4) yesterday_store_queries(7) yesterday_store_queries(8)]
    by simp
  moreover have "Trend (?d ! 1) = ''neutral'' \<and> Trend (?d ! 3) = ''neutral''"
    using percent_change_trend [OF dash_store_stats dash_store_queries(3)
      dash_store_queries(4) dash_store_queries(7) dash_store_queries(8)]
    by simp
  ultimately show ?thesis
    by blast
qed

text \<open>
  Claim C5 as stated fails when the comparison window is empty: the example has two runs
  today and none the day before, a cost of 3 today and of 0 the day before, and both
  trends are \<open>neutral\<close>, although the values differ and the current one is the greater.
\<close>

theorem percent_change_trend_counterexample:
  "getRunsCount dash_store False (today 0 example_now) example_now = Inr 2
   \<and> getRunsCount dash_store False (yesterday 0 example_now) (today 0 example_now) = Inr 0
   \<and> getTotalCost dash_store False (today 0 example_now) example_now = Inr 3
   \<and> getTotalCost dash_store False (yesterday 0 example_now) (today 0 example_now) = Inr 0
   \<and> map_sum id (\<lambda>stats. (Trend (stats ! 1), Trend (stats ! 3)))
        (GetDashboardStats fmtf_example decimal_conversion 0 dash_store {} example_now)
       = Inr (''neutral'', ''neutral'')"
proof -
  have "map_sum id (\<lambda>stats. (Trend (stats ! 1), Trend (stats ! 3)))
          (GetDashboardStats fmtf_example decimal_conversion 0 dash_store {} example_now)
        = Inr (Trend (projr (GetDashboardStats fmtf_example decimal_conversion 0 dash_store {} example_now) ! 1),
               Trend (projr (GetDashboardStats fmtf_example decimal_conversion 0 dash_store {} example_now) ! 3))"
    by (subst dash_store_stats) simp
  then show ?thesis
    by (simp add: dash_store_queries dash_store_trend_nth)
qed

text \<open>The window of the last 48 hours lies inside the window that starts a week before today.\<close>

lemma lastWeek_before_last48Hours: "lastWeek off now \<le> last48Hours now"
proof -
  have "0 \<le> (now + off) mod day_ms"
    by (simp add: day_ms_def)
  then show ?thesis
    by (simp add: lastWeek_def last48Hours_def today_def day_ms_def hour_ms_def)
qed

lemma distinct_agents_mono:
  assumes "t1 \<le> (t2::Time)"
  shows "length (remdups (map AgentRun.AgentID (filter (\<lambda>r. t2 \<le> Created r) rs)))
       \<le> length (remdups (map AgentRun.AgentID (filter (\<lambda>r. t1 \<le> Created r) rs)))"
proof -
  have "set (map AgentRun.AgentID (filter (\<lambda>r. t2 \<le> Created r) rs))
      \<subseteq> set (map AgentRun.AgentID (filter (\<lambda>r. t1 \<le> Created r) rs))"
    using assms by auto
  then have "card (set (map AgentRun.AgentID (filter (\<lambda>r. t2 \<le> Created r) rs)))
      \<le> card (set (map AgentRun.AgentID (filter (\<lambda>r. t1 \<le> Created r) rs)))"
    by (intro card_mono) simp_all
  then show ?thesis
    by (simp only: length_remdups_card_conv)
qed

lemma getActiveAgentsCount_mono:
  assumes "t1 \<le> t2"
    and "getActiveAgentsCount s False t2 = Inr n"
    and "getActiveAgentsCount s False t1 = Inr m"
  shows "n \<le> m"
  using assms(2,3) distinct_agents_mono [OF assms(1), of "agent_runs s"]
  by (auto simp: getActiveAgentsCount_def Let_def split: if_splits)

text \<open>
  Claim C10.  The window since \<open>lastWeek\<close> contains the window since \<open>last48Hours\<close>, so the
  number of distinct agents since \<open>lastWeek\<close> is at least the number since \<open>last48Hours\<close>; the
  difference shown for \<open>Active Agents\<close> is never positive and its trend is \<open>down\<close> or
  \<open>neutral\<close>, never \<open>up\<close>.
\<close>

theorem active_agents_never_up:
  assumes "GetDashboardStats fmtf toD off s Q now = Inr stats"
  shows "lastWeek off now \<le> last48Hours now
       \<and> (\<exists>n m. getActiveAgentsCount s False (last48Hours now) = Inr n
               \<and> getActiveAgentsCount s False (lastWeek off now) = Inr m
               \<and> n - m \<le> 0)
       \<and> Trend (stats ! 0) \<noteq> ''up''
       \<and> (Trend (stats ! 0) = ''down'' \<or> Trend (stats ! 0) = ''neutral'')"
proof -
  from GetDashboardStats_Inr [OF assms] obtain an al where
    n: "getActiveAgentsCount s False (last48Hours now) = Inr an"
    and m: "getActiveAgentsCount s False (lastWeek off now) = Inr al"
    and t: "Trend (stats ! 0)
             = (if an - al < 0 then ''down'' else if an - al = 0 then ''neutral'' else ''up'')"
    by blast
  have le: "an \<le> al"
    using lastWeek_before_last48Hours n m by (rule getActiveAgentsCount_mono)
  with t have "Trend (stats ! 0) \<noteq> ''up''"
    and "Trend (stats ! 0) = ''down'' \<or> Trend (stats ! 0) = ''neutral''"
    by auto
  with n m le lastWeek_before_last48Hours show ?thesis
    by auto
qed

theorem active_agents_never_up_witness:
  "GetDashboardStats fmtf_example decimal_conversion 0 dash_store {} example_now
     = Inr (projr (GetDashboardStats fmtf_example decimal_conversion 0 dash_store {} example_now))
   \<and> lastWeek 0 example_now \<le> last48Hours example_now
   \<and> Trend (projr (GetDashboardStats fmtf_example decimal_conversion 0 dash_store {} example_now) ! 0)
       = ''neutral''"
  using active_agents_never_up [OF dash_store_stats] dash_store_stats
  by (simp add: dash_store_trend_nth)

section \<open>Facts about the run-time field\<close>

lemma time_taken_seconds_strings:
  assumes "\<forall>v \<in> set vs. v = BNull \<or> (\<exists>x. v = BString x \<and> toD (remove_s x) \<noteq> None)"
  shows "\<exists>ds. time_taken_seconds toD vs = Inr ds \<and> numeric_values ds = parsed_seconds toD vs"
  using assms
proof (induction vs)
  case Nil
  then show ?case by (simp add: numeric_values_def parsed_seconds_def)
next
  case (Cons v vs)
  then obtain ds where ds: "time_taken_seconds toD vs = Inr ds"
    "numeric_values ds = parsed_seconds toD vs"
    by auto
  from Cons.prems have "v = BNull \<or> (\<exists>x. v = BString x \<and> toD (remove_s x) \<noteq> None)"
    by simp
  then show ?case
  proof
    assume "v = BNull"
    with ds show ?thesis
      by (simp add: replaceAll_s_def toDouble_def numeric_values_def parsed_seconds_def)
  next
    assume "\<exists>x. v = BString x \<and> toD (remove_s x) \<noteq> None"
    then obtain x d where "v = BString x" "toD (remove_s x) = Some d"
      by auto
    with ds show ?thesis
      by (simp add: replaceAll_s_def toDouble_def numeric_values_def parsed_seconds_def)
  qed
qed

lemma time_taken_seconds_unparseable:
  assumes "BString x \<in> set vs" and "toD (remove_s x) = None"
    and "\<forall>v \<in> set vs. v = BNull \<or> (\<exists>y. v = BString y)"
  shows "time_taken_seconds toD vs = Inl StoreError"
  using assms
proof (induction vs)
  case Nil
  then show ?case by simp
next
  case (Cons v vs)
  from Cons.prems(3) have v: "v = BNull \<or> (\<exists>y. v = BString y)"
    by simp
  show ?case
  proof (cases "v = BString x")
    case True
    with Cons.prems(2) show ?thesis
      by (simp add: replaceAll_s_def toDouble_def)
  next
    case False
    with Cons.prems have "time_taken_seconds toD vs = Inl StoreError"
      by (intro Cons.IH) auto
    with v show ?thesis
      by (auto simp: replaceAll_s_def toDouble_def split: option.splits)
  qed
qed

text \<open>A run-time that is a number fails the query: \<open>$replaceAll\<close> takes strings only.\<close>

lemma time_taken_seconds_number:
  assumes "BDouble d \<in> set vs"
  shows "\<exists>e. time_taken_seconds toD vs = Inl e"
  using assms
  by (induction vs) (auto simp: replaceAll_s_def toDouble_def split: sum.splits bson_value.splits)

text \<open>
  A window that is not empty and in which no run has a run-time: the average is null and
  the type assertion \<open>.(float64)\<close> on it panics.
\<close>

lemma getAvgResponseTime_all_null:
  assumes "window_time_taken s start end \<noteq> []"
    and "\<forall>v \<in> set (window_time_taken s start end). v = BNull"
    and "is_int32 (length (window_time_taken s start end))"
  shows "getAvgResponseTime toD s False start end = Inl Panic"
proof -
  let ?vs = "window_time_taken s start end"
  from assms(2)
  have "\<forall>v \<in> set ?vs. v = BNull \<or> (\<exists>x. v = BString x \<and> toD (remove_s x) \<noteq> None)"
    by blast
  from time_taken_seconds_strings [OF this] obtain ds where
    ds: "time_taken_seconds toD ?vs = Inr ds" "numeric_values ds = parsed_seconds toD ?vs"
    by blast
  from assms(2) have "parsed_seconds toD ?vs = []"
    by (auto simp: parsed_seconds_def)
  with ds assms(1,3) show ?thesis
    by (auto simp: getAvgResponseTime_def window_time_taken_def Let_def avg_acc_def)
qed

text \<open>
  Claim C6, as the code has it, for a window in which every stored run-time is a string
  or is missing, and for every conversion \<open>toD\<close> of the server.  A string is normalised by
  removing every \<open>s\<close> and converting the rest to a number: \<open>3.2s\<close> becomes \<open>3.2\<close>, and gives
  the number 3.2 when the server reads \<open>3.2\<close> as 3.2.  When the server converts every
  string of the window, the query returns the mean of the numbers read, and the runs with
  no run-time add nothing to it.  When there is a string that the server does not
  convert, the whole query fails with an error.
\<close>

theorem avg_response_time_strings:
  assumes "\<forall>v \<in> set (window_time_taken s start end). v = BNull \<or> (\<exists>x. v = BString x)"
  shows "replaceAll_s (BString ''3.2s'') = Inr (BString ''3.2'')
       \<and> (toD ''3.2'' = Some (32 / 10)
            \<longrightarrow> time_taken_seconds toD [BString ''3.2s''] = Inr [BDouble (32 / 10)])
       \<and> ((\<forall>x. BString x \<in> set (window_time_taken s start end)
                 \<longrightarrow> toD (remove_s x) \<noteq> None)
            \<and> parsed_seconds toD (window_time_taken s start end) \<noteq> []
            \<and> is_int32 (length (window_time_taken s start end))
            \<longrightarrow> getAvgResponseTime toD s False start end
                = Inr (sum_list (parsed_seconds toD (window_time_taken s start end))
                       / real (length (parsed_seconds toD (window_time_taken s start end)))))
       \<and> ((\<exists>x. BString x \<in> set (window_time_taken s start end)
                 \<and> toD (remove_s x) = None)
            \<longrightarrow> getAvgResponseTime toD s False start end = Inl StoreError)"
proof (intro conjI impI)
  show "replaceAll_s (BString ''3.2s'') = Inr (BString ''3.2'')"
    by (simp add: replaceAll_s_def remove_s_def)
next
  assume "toD ''3.2'' = Some (32 / 10)"
  then show "time_taken_seconds toD [BString ''3.2s''] = Inr [BDouble (32 / 10)]"
    by (simp add: replaceAll_s_def remove_s_def toDouble_def)
next
  let ?vs = "window_time_taken s start end"
  assume a: "(\<forall>x. BString x \<in> set ?vs \<longrightarrow> toD (remove_s x) \<noteq> None)
            \<and> parsed_seconds toD ?vs \<noteq> [] \<and> is_int32 (length ?vs)"
  with assms
  have "\<forall>v \<in> set ?vs. v = BNull \<or> (\<exists>x. v = BString x \<and> toD (remove_s x) \<noteq> None)"
    by blast
  from time_taken_seconds_strings [OF this] obtain ds where
    ds: "time_taken_seconds toD ?vs = Inr ds" "numeric_values ds = parsed_seconds toD ?vs"
    by blast
  from a have ne: "?vs \<noteq> []"
    by (auto simp: parsed_seconds_def)
  from ds a ne
  show "getAvgResponseTime toD s False start end
          = Inr (sum_list (parsed_seconds toD ?vs) / real (length (parsed_seconds toD ?vs)))"
    by (auto simp: getAvgResponseTime_def window_time_taken_def Let_def avg_acc_def)
next
  let ?vs = "window_time_taken s start end"
  assume "\<exists>x. BString x \<in> set ?vs \<and> toD (remove_s x) = None"
  then obtain x where "BString x \<in> set ?vs" "toD (remove_s x) = None"
    by blast
  from time_taken_seconds_unparseable [where toD = toD, OF this assms]
  show "getAvgResponseTime toD s False start end = Inl StoreError"
    by (simp add: getAvgResponseTime_def window_time_taken_def Let_def)
qed

lemma strings_store_window:
  "window_time_taken strings_store (lastHour example_now) example_now
     = [BString ''3.2s'', BNull, BString ''4.8s'']"
  by (simp add: window_time_taken_def dash_defs)

lemma unparseable_store_window:
  "window_time_taken unparseable_store (lastHour example_now) example_now
     = [BString ''3.2s'', BString ''1m30s'']"
  by (simp add: window_time_taken_def dash_defs)

lemma conversion_examples:
  "decimal_conversion ''3.2'' = Some (32 / 10)"
  "decimal_conversion (remove_s ''3.2s'') = Some (32 / 10)"
  "decimal_conversion (remove_s ''4.8s'') = Some (48 / 10)"
  "decimal_conversion (remove_s ''1m30s'') = None"
  by (simp_all add: remove_s_def decimal_conversion_def decimal_unsigned_def is_digit_def
      nat_of_digits_def digit_val_def)

theorem avg_response_time_strings_witness:
  "time_taken_seconds decimal_conversion [BString ''3.2s''] = Inr [BDouble (32 / 10)]
   \<and> getAvgResponseTime decimal_conversion strings_store False (lastHour example_now) example_now
       = Inr 4
   \<and> getAvgResponseTime decimal_conversion unparseable_store False (lastHour example_now)
        example_now = Inl StoreError"
proof -
  let ?W = "window_time_taken strings_store (lastHour example_now) example_now"
  let ?U = "window_time_taken unparseable_store (lastHour example_now) example_now"
  have tw: "\<forall>v \<in> set ?W. v = BNull \<or> (\<exists>x. v = BString x)"
    by (simp add: strings_store_window)
  note T = avg_response_time_strings [OF tw, of decimal_conversion]
  from T conversion_examples(1)
  have n: "time_taken_seconds decimal_conversion [BString ''3.2s''] = Inr [BDouble (32 / 10)]"
    by blast
  have "\<forall>x. BString x \<in> set ?W \<longrightarrow> decimal_conversion (remove_s x) \<noteq> None"
  proof (intro allI impI)
    fix x assume "BString x \<in> set ?W"
    then have "x = ''3.2s'' \<or> x = ''4.8s''"
      by (simp add: strings_store_window)
    then show "decimal_conversion (remove_s x) \<noteq> None"
      by (elim disjE; simp only: conversion_examples; simp)
  qed
  moreover have "parsed_seconds decimal_conversion ?W \<noteq> [] \<and> is_int32 (length ?W)"
    by (simp add: strings_store_window parsed_seconds_def conversion_examples is_int32_def)
  ultimately
  have ok: "(\<forall>x. BString x \<in> set ?W \<longrightarrow> decimal_conversion (remove_s x) \<noteq> None)
            \<and> parsed_seconds decimal_conversion ?W \<noteq> [] \<and> is_int32 (length ?W)"
    by blast
  from T ok
  have "getAvgResponseTime decimal_conversion strings_store False (lastHour example_now)
          example_now
          = Inr (sum_list (parsed_seconds decimal_conversion ?W)
                 / real (length (parsed_seconds decimal_conversion ?W)))"
    by blast
  then have a: "getAvgResponseTime decimal_conversion strings_store False
                  (lastHour example_now) example_now = Inr 4"
    by (simp add: strings_store_window parsed_seconds_def conversion_examples)
  have tu: "\<forall>v \<in> set ?U. v = BNull \<or> (\<exists>x. v = BString x)"
    by (simp add: unparseable_store_window)
  have bad: "\<exists>x. BString x \<in> set ?U \<and> decimal_conversion (remove_s x) = None"
    by (auto simp: unparseable_store_window conversion_examples)
  from avg_response_time_strings [OF tu, of decimal_conversion] bad
  have "getAvgResponseTime decimal_conversion unparseable_store False (lastHour example_now)
          example_now = Inl StoreError"
    by blast
  with n a show ?thesis
    by blast
qed

text \<open>
  Claim C6 as stated fails.  With the string \<open>3.2s\<close> and the number 3.2 in the window the
  query returns an error, not their mean: \<open>$replaceAll\<close> refuses the number.  With the
  string \<open>3.2s\<close> and the string \<open>1m30s\<close>, of which \<open>1m30\<close> is left, which is no number, the
  query returns an error as well.
\<close>

theorem avg_response_time_counterexample:
  "window_time_taken mixed_store (lastHour example_now) example_now
     = [BString ''3.2s'', BDouble (32 / 10)]
   \<and> getAvgResponseTime decimal_conversion mixed_store False (lastHour example_now) example_now
       = Inl StoreError
   \<and> window_time_taken unparseable_store (lastHour example_now) example_now
       = [BString ''3.2s'', BString ''1m30s'']
   \<and> remove_s ''1m30s'' = ''1m30''
   \<and> getAvgResponseTime decimal_conversion unparseable_store False (lastHour example_now)
        example_now = Inl StoreError"
  by (simp add: window_time_taken_def query_defs dash_defs)

section \<open>Facts about the formatting of numbers\<close>

lemma formatNumber_below_million:
  assumes "0 \<le> n" and "n < 1000000"
  shows "formatNumber n = thousands_grouped (nat n)"
proof (cases "n < 1000")
  case True
  with assms(1) have "nat n < 1000"
    by linarith
  then have "thousands_grouped (nat n) = digits (nat n)"
    by (simp add: thousands_grouped.simps [of "nat n"])
  with True assms(1) show ?thesis
    by (simp add: formatNumber_def fmt_d_def)
next
  case False
  with assms have q: "0 \<le> n div 1000" "n div 1000 < 1000" "0 \<le> n mod 1000"
    by auto
  have d: "nat n div 1000 = nat (n div 1000)" and m: "nat n mod 1000 = nat (n mod 1000)"
    using assms(1) by (simp_all add: nat_div_distrib nat_mod_distrib)
  from q have "nat (n div 1000) < 1000"
    by linarith
  then have small: "thousands_grouped (nat (n div 1000)) = digits (nat (n div 1000))"
    by (simp add: thousands_grouped.simps [of "nat (n div 1000)"])
  from False assms(1) have "\<not> nat n < 1000"
    by linarith
  then have "thousands_grouped (nat n)
      = thousands_grouped (nat (n div 1000)) @ '','' @ zero_pad 3 (digits (nat (n mod 1000)))"
    by (simp add: thousands_grouped.simps [of "nat n"] d m)
  moreover from q have "\<not> n div 1000 < 0" and "\<not> n mod 1000 < 0"
    by linarith+
  ultimately show ?thesis
    using False small by (simp add: formatNumber_def fmt_d_def fmt_03d_def)
qed

text \<open>The value shown for \<open>Total Runs Today\<close> is \<open>formatNumber\<close> of the number of runs.\<close>

lemma runs_today_value:
  assumes "GetDashboardStats fmtf toD off s Q now = Inr stats"
    and "getRunsCount s False (today off now) now = Inr rt"
  shows "Value (stats ! 1) = formatNumber rt"
  using GetDashboardStats_Inr [OF assms(1)] assms(2) by auto

text \<open>
  Claim C9 fails on the code from one million on.  \<open>formatNumber\<close> puts one comma, before
  the last three digits, and prints the rest with \<open>%d\<close>: 1234567 is rendered \<open>1234,567\<close>,
  where grouping by thousands gives \<open>1,234,567\<close>.  Below one million the two agree (lemma
  \<open>formatNumber_below_million\<close>), as for 1234.
\<close>

theorem formatNumber_million:
  "formatNumber 1234567 = ''1234,567''
   \<and> thousands_grouped 1234567 = ''1,234,567''
   \<and> formatNumber 1234 = ''1,234''"
  by (simp add: formatNumber_def fmt_d_def fmt_03d_def zero_pad_def digits.simps digit_char_def
      thousands_grouped.simps)

end
